theory Spec2Isabelle
  imports Main
begin

section \<open>The render-delay control server\<close>

text \<open>
  The program is an Express server, \<^verbatim>\<open>server.js\<close>, in two near-identical variants. It
  reads and writes the \<^verbatim>\<open>delay_ms\<close> setting of the "Render Delay" filter of a fixed
  list of OBS sources through one obs-websocket connection. This theory embeds its
  functions and its four route handlers, together with the parts of the JavaScript
  runtime they rely on: values and their conversions, property access, promises.
\<close>

subsection \<open>JavaScript values\<close>

text \<open>
  Numbers. The delay is a count of milliseconds, so a finite number is represented by an
  integer; \<open>NaN\<close> and the two infinities are kept, since \<^verbatim>\<open>Number(...)\<close> produces them.
  Fractional doubles and negative zero are outside this model.
\<close>

datatype jsnum = NaN | PosInf | NegInf | Fin int

text \<open>
  The two conversions between strings and numbers that are floating-point algorithms of
  the runtime, taken as parameters of everything that uses them: \<^verbatim>\<open>StringToNumber\<close>,
  which parses a numeric literal into a double, and \<^verbatim>\<open>Number::toString\<close> on an integer
  of magnitude \<open>2^53\<close> or more, which prints rounded digits, and exponent notation from
  \<open>10^21\<close>.
\<close>

record runtime =
  StringToNumber :: "string \<Rightarrow> jsnum"
  LargeToString :: "int \<Rightarrow> string"

text \<open>
  Values as they come out of a JSON body, a form body or a reply of the device. An object
  is the list of its own properties; the first binding of a key is the one that counts.
\<close>

datatype jsval =
    JUndefined
  | JNull
  | JBool bool
  | JNum jsnum
  | JStr string
  | JObj "(string \<times> jsval) list"
  | JArr "jsval list"

text \<open>What a \<^verbatim>\<open>throw\<close> or a rejected promise carries: an error object with its message.\<close>

datatype js_error = JsTypeError string | JsError string

text \<open>\<^verbatim>\<open>ToBoolean\<close>, which decides \<^verbatim>\<open>!x\<close> and \<^verbatim>\<open>x ? a : b\<close>.\<close>

fun truthy :: "jsval \<Rightarrow> bool" where
  "truthy JUndefined = False"
| "truthy JNull = False"
| "truthy (JBool b) = b"
| "truthy (JNum n) = (n \<noteq> NaN \<and> n \<noteq> Fin 0)"
| "truthy (JStr s) = (s \<noteq> [])"
| "truthy (JObj props) = True"
| "truthy (JArr elems) = True"

text \<open>Decimal digits of a natural number, most significant first.\<close>

fun digits :: "nat \<Rightarrow> string" where
  "digits n =
     (if n < 10 then [''0123456789'' ! n]
      else digits (n div 10) @ [''0123456789'' ! (n mod 10)])"

declare digits.simps [simp del]

text \<open>
  \<^verbatim>\<open>Number::toString\<close>. An integer below \<open>2^53 = 9007199254740992\<close> in magnitude is a
  double and prints as its decimal digits; for the others the runtime decides.
\<close>

fun NumberToString :: "runtime \<Rightarrow> jsnum \<Rightarrow> string" where
  "NumberToString rt NaN = ''NaN''"
| "NumberToString rt PosInf = ''Infinity''"
| "NumberToString rt NegInf = ''-Infinity''"
| "NumberToString rt (Fin n) =
     (if \<bar>n\<bar> < 9007199254740992
      then (if n < 0 then ''-'' @ digits (nat (- n)) else digits (nat n))
      else LargeToString rt n)"

text \<open>
  \<^verbatim>\<open>OrdinaryToPrimitive\<close> on a plain object. No property of a decoded JSON object is
  callable, so an own \<^verbatim>\<open>toString\<close> property hides \<^verbatim>\<open>Object.prototype.toString\<close> and the
  conversion throws; otherwise the inherited method answers \<^verbatim>\<open>[object Object]\<close>. The
  inherited \<^verbatim>\<open>valueOf\<close> returns the object itself and an own one is not callable, so
  \<^verbatim>\<open>valueOf\<close> never decides, whatever the hint.
\<close>

definition OrdinaryToPrimitive :: "(string \<times> jsval) list \<Rightarrow> js_error + string" where
  "OrdinaryToPrimitive props =
     (if map_of props ''toString'' = None then Inr ''[object Object]''
      else Inl (JsTypeError ''Cannot convert object to primitive value''))"

text \<open>
  \<^verbatim>\<open>ToString\<close>, used by template literals. An array is converted by
  \<^verbatim>\<open>Array.prototype.join\<close>: elements separated by commas, \<^verbatim>\<open>undefined\<close> and \<^verbatim>\<open>null\<close>
  printed as the empty string.
\<close>

fun ToString :: "runtime \<Rightarrow> jsval \<Rightarrow> js_error + string"
  and join :: "runtime \<Rightarrow> jsval list \<Rightarrow> js_error + string" where
  "ToString rt JUndefined = Inr ''undefined''"
| "ToString rt JNull = Inr ''null''"
| "ToString rt (JBool b) = Inr (if b then ''true'' else ''false'')"
| "ToString rt (JNum n) = Inr (NumberToString rt n)"
| "ToString rt (JStr s) = Inr s"
| "ToString rt (JObj props) = OrdinaryToPrimitive props"
| "ToString rt (JArr elems) = join rt elems"
| "join rt [] = Inr ''''"
| "join rt (x # xs) =
     (case (if x = JUndefined \<or> x = JNull then Inr '''' else ToString rt x) of
        Inl e \<Rightarrow> Inl e
      | Inr s \<Rightarrow>
          (if xs = [] then Inr s
           else (case join rt xs of Inl e \<Rightarrow> Inl e | Inr t \<Rightarrow> Inr (s @ '','' @ t))))"

text \<open>
  \<^verbatim>\<open>ToNumber\<close>, which is what \<^verbatim>\<open>Number(x)\<close> computes. A string is converted by
  the \<^verbatim>\<open>StringToNumber\<close> of the runtime. Objects and arrays are first converted to a
  string.
\<close>

fun ToNumber :: "runtime \<Rightarrow> jsval \<Rightarrow> js_error + jsnum" where
  "ToNumber rt JUndefined = Inr NaN"
| "ToNumber rt JNull = Inr (Fin 0)"
| "ToNumber rt (JBool b) = Inr (Fin (if b then 1 else 0))"
| "ToNumber rt (JNum n) = Inr n"
| "ToNumber rt (JStr s) = Inr (StringToNumber rt s)"
| "ToNumber rt (JObj props) =
     (case OrdinaryToPrimitive props of Inl e \<Rightarrow> Inl e | Inr s \<Rightarrow> Inr (StringToNumber rt s))"
| "ToNumber rt (JArr elems) =
     (case join rt elems of Inl e \<Rightarrow> Inl e | Inr s \<Rightarrow> Inr (StringToNumber rt s))"

text \<open>The comparison \<^verbatim>\<open>n >= 0\<close> on numbers: false on \<open>NaN\<close>.\<close>

fun num_ge_zero :: "jsnum \<Rightarrow> bool" where
  "num_ge_zero NaN = False"
| "num_ge_zero PosInf = True"
| "num_ge_zero NegInf = False"
| "num_ge_zero (Fin n) = (0 \<le> n)"

text \<open>
  The comparison \<^verbatim>\<open>x >= 0\<close> on any value: the right operand is a number, so the left
  one is converted with \<^verbatim>\<open>ToNumber\<close>.
\<close>

definition ge_zero :: "runtime \<Rightarrow> jsval \<Rightarrow> js_error + bool" where
  "ge_zero rt x = (case ToNumber rt x of Inl e \<Rightarrow> Inl e | Inr n \<Rightarrow> Inr (num_ge_zero n))"

text \<open>
  Reading a property, \<^verbatim>\<open>x.k\<close>. It throws on \<^verbatim>\<open>undefined\<close> and \<^verbatim>\<open>null\<close>. The program
  reads \<^verbatim>\<open>filterSettings\<close>, \<^verbatim>\<open>delay_ms\<close>, \<^verbatim>\<open>cameraName\<close>, \<^verbatim>\<open>delay\<close> and \<^verbatim>\<open>newDelay\<close>
  only; no prototype defines one of these, so a value without such an own property
  answers \<^verbatim>\<open>undefined\<close>.
\<close>

fun get_prop :: "jsval \<Rightarrow> string \<Rightarrow> js_error + jsval" where
  "get_prop JUndefined k = Inl (JsTypeError ''Cannot read properties of undefined'')"
| "get_prop JNull k = Inl (JsTypeError ''Cannot read properties of null'')"
| "get_prop (JObj props) k = Inr (case map_of props k of None \<Rightarrow> JUndefined | Some v \<Rightarrow> v)"
| "get_prop x k = Inr JUndefined"

subsection \<open>Promises\<close>

text \<open>
  A request issues remote calls, numbered in the order in which it issues them. A
  schedule lists the numbers of the calls that settle, in the order in which they do; a
  call that is not listed never settles, and whatever awaits it never continues (the
  program sets no timeout).
\<close>

type_synonym schedule = "nat list"

definition await :: "schedule \<Rightarrow> nat \<Rightarrow> 'a \<Rightarrow> 'a option" where
  "await order i x = (if i \<in> set order then Some x else None)"

text \<open>
  \<^verbatim>\<open>Promise.all\<close> over promises \<open>ps\<close>, where \<open>ps ! i\<close> is what promise \<open>i\<close> settles
  with once call \<open>i\<close> has settled. Each fulfilment is stored in the slot of its own
  index; the first rejection rejects the whole; the result is the list of the slots once
  all of them are filled. \<open>None\<close> means that the combined promise stays pending.
\<close>

fun settle_all ::
  "(js_error + 'a) list \<Rightarrow> 'a option list \<Rightarrow> schedule \<Rightarrow> (js_error + 'a list) option" where
  "settle_all ps slots [] = map_option Inr (those slots)"
| "settle_all ps slots (i # order) =
     (if i < length ps then
        (case ps ! i of
           Inl e \<Rightarrow> Some (Inl e)
         | Inr v \<Rightarrow> settle_all ps (slots[i := Some v]) order)
      else settle_all ps slots order)"

definition Promise_all :: "(js_error + 'a) list \<Rightarrow> schedule \<Rightarrow> (js_error + 'a list) option" where
  "Promise_all ps order = settle_all ps (replicate (length ps) None) order"

subsection \<open>Configuration\<close>

definition port :: nat where
  "port = 7700"

definition OBS_HOST :: string where
  "OBS_HOST = ''ws://strih.lan:4456''"

definition OBS_PASSWORD :: string where
  "OBS_PASSWORD = ''''"

definition FILTER_NAME :: string where
  "FILTER_NAME = ''Render Delay''"

definition cameraSources :: "string list" where
  "cameraSources =
     [''01 input'', ''02 input'', ''03 input'', ''04 input'',
      ''05 input'', ''06 input'', ''07 input'', ''08 input'']"

subsection \<open>The connection to OBS\<close>

text \<open>
  The global \<^verbatim>\<open>obs\<close>: whether the session is open, what the device answers to a request
  (its type and its data), and the requests made so far through \<^verbatim>\<open>obs.call\<close>.
\<close>

record obs_client =
  connected :: bool
  device :: "string \<Rightarrow> jsval \<Rightarrow> js_error + jsval"
  calls :: "(string \<times> jsval) list"

text \<open>
  Modelled from the spec: the obs-websocket-js client is a dependency whose code is not
  part of the sources. \<^verbatim>\<open>connect\<close> is attempted once at startup; on failure the client
  stays disconnected and every later call fails. The handlers of \<^verbatim>\<open>.then\<close> and
  \<^verbatim>\<open>.catch\<close> at startup only log, so the server runs in both cases.
\<close>

definition startup ::
  "(js_error + unit) \<Rightarrow> (string \<Rightarrow> jsval \<Rightarrow> js_error + jsval) \<Rightarrow> obs_client" where
  "startup connect_result dev =
     (case connect_result of
        Inr ok \<Rightarrow> \<lparr>connected = True, device = dev, calls = []\<rparr>
      | Inl err \<Rightarrow> \<lparr>connected = False, device = dev, calls = []\<rparr>)"

text \<open>
  Modelled from the spec: \<^verbatim>\<open>obs.call(requestType, requestData)\<close> is rejected when the
  connection is down, and otherwise settles with the answer of the device. The request
  is recorded in both cases.
\<close>

definition obs_call ::
  "obs_client \<Rightarrow> string \<Rightarrow> jsval \<Rightarrow> (js_error + jsval) \<times> obs_client" where
  "obs_call obs requestType requestData =
     (if connected obs then device obs requestType requestData
      else Inl (JsError ''Not connected''),
      obs\<lparr>calls := calls obs @ [(requestType, requestData)]\<rparr>)"

text \<open>
  Modelled from the spec: a call on a disconnected client fails, so it does settle (the
  client rejects it at once, and such calls are rejected in the order in which they are
  made). A call on a connected client settles when the device answers, which the
  schedule tells. The function gives the calls that settle among the \<open>n\<close> calls of a
  request.
\<close>

definition settled_calls :: "obs_client \<Rightarrow> nat \<Rightarrow> schedule \<Rightarrow> schedule" where
  "settled_calls obs n order = (if connected obs then order else [0..<n])"

subsection \<open>Reading the delays: \<^verbatim>\<open>fetchCameraDelays\<close>\<close>

text \<open>One element of the result, \<^verbatim>\<open>{ cameraName, delay }\<close>.\<close>

record reading =
  cameraName :: string
  delay :: jsval

text \<open>
  The callback given to \<^verbatim>\<open>cameraSources.map\<close> runs in two steps. It first issues the
  call \<^verbatim>\<open>GetSourceFilter\<close> for its source; this happens for all sources, in the order of
  the list, before any answer arrives.
\<close>

fun issue_reads ::
  "obs_client \<Rightarrow> string list \<Rightarrow> (js_error + jsval) list \<times> obs_client" where
  "issue_reads obs [] = ([], obs)"
| "issue_reads obs (cam # cams) =
     (case obs_call obs ''GetSourceFilter''
             (JObj [(''sourceName'', JStr cam), (''filterName'', JStr FILTER_NAME)]) of
        (resp, obs1) \<Rightarrow>
          (case issue_reads obs1 cams of (resps, obs2) \<Rightarrow> (resp # resps, obs2)))"

text \<open>
  Once its call has settled the callback continues. The \<^verbatim>\<open>try\<close> block reads
  \<^verbatim>\<open>resp.filterSettings.delay_ms\<close>, which throws when the reply has no
  \<^verbatim>\<open>filterSettings\<close>.
\<close>

definition filter_delay :: "jsval \<Rightarrow> js_error + jsval" where
  "filter_delay resp =
     (case get_prop resp ''filterSettings'' of
        Inl e \<Rightarrow> Inl e
      | Inr filterSettings \<Rightarrow> get_prop filterSettings ''delay_ms'')"

text \<open>
  The \<^verbatim>\<open>catch\<close> block turns a rejected call, and anything thrown in the \<^verbatim>\<open>try\<close>
  block, into the delay \<open>-1\<close>; the callback itself never throws.
\<close>

definition read_delay :: "string \<Rightarrow> js_error + jsval \<Rightarrow> js_error + reading" where
  "read_delay cam outcome =
     (case (case outcome of Inl e \<Rightarrow> Inl e | Inr resp \<Rightarrow> filter_delay resp) of
        Inr d \<Rightarrow> Inr \<lparr>cameraName = cam, delay = d\<rparr>
      | Inl error \<Rightarrow> Inr \<lparr>cameraName = cam, delay = JNum (Fin (- 1))\<rparr>)"

text \<open>
  \<^verbatim>\<open>fetchCameraDelays\<close>, with the list of sources and the connection as arguments
  instead of globals: \<^verbatim>\<open>Promise.all\<close> of the promises of the callbacks.
\<close>

definition fetchCameraDelays ::
  "obs_client \<Rightarrow> string list \<Rightarrow> schedule \<Rightarrow> (js_error + reading list) option \<times> obs_client" where
  "fetchCameraDelays obs sources order =
     (case issue_reads obs sources of
        (resps, obs') \<Rightarrow>
          (Promise_all (map2 read_delay sources resps)
             (settled_calls obs (length sources) order),
           obs'))"

subsection \<open>Responses\<close>

text \<open>
  What a handler answers: the status and what was sent with \<^verbatim>\<open>res.send\<close>,
  \<^verbatim>\<open>res.json\<close> or \<^verbatim>\<open>res.redirect\<close>. A handler that never answers has no response.
\<close>

datatype payload = Send string | SendJson jsval | Redirect string

record response =
  status :: nat
  payload :: payload

definition reading_json :: "reading \<Rightarrow> jsval" where
  "reading_json cam = JObj [(''cameraName'', JStr (cameraName cam)), (''delay'', delay cam)]"

subsection \<open>\<^verbatim>\<open>GET /api/cameras\<close>\<close>

definition get_api_cameras ::
  "obs_client \<Rightarrow> string list \<Rightarrow> schedule \<Rightarrow> response option \<times> obs_client" where
  "get_api_cameras obs sources order =
     (case fetchCameraDelays obs sources order of
        (None, obs') \<Rightarrow> (None, obs')
      | (Some (Inr cameraDelays), obs') \<Rightarrow>
          (Some \<lparr>status = 200, payload = SendJson (JArr (map reading_json cameraDelays))\<rparr>, obs')
      | (Some (Inl error), obs') \<Rightarrow>
          (Some \<lparr>status = 500,
                 payload = SendJson (JObj [(''error'', JStr ''Failed to fetch camera delays.'')])\<rparr>,
           obs'))"

subsection \<open>The list view: \<^verbatim>\<open>buildCameraCell\<close> and \<^verbatim>\<open>GET /\<close>\<close>

text \<open>The template literal that \<^verbatim>\<open>buildCameraCell\<close> returns, with its substitutions as arguments.\<close>

definition camera_cell :: "string \<Rightarrow> string \<Rightarrow> string \<Rightarrow> string" where
  \<open>camera_cell cam displayDelay val =
     ''\<newline>'' @
     ''    <h3>'' @
     cam @
     ''</h3>\<newline>'' @
     ''    <p><strong>Current Delay:</strong> '' @
     displayDelay @
     ''</p>\<newline>'' @
     ''    <form action="/update-delay" method="POST">\<newline>'' @
     ''      <input type="hidden" name="cameraName" value="'' @
     cam @
     ''" />\<newline>'' @
     ''      <label>New Delay (ms): \<newline>'' @
     ''        <input type="number" name="newDelay" value="'' @
     val @
     ''" style="width:80px;" />\<newline>'' @
     ''      </label>\<newline>'' @
     ''      <button type="submit">Update</button>\<newline>'' @
     ''    </form>\<newline>'' @
     ''  ''\<close>

text \<open>
  \<^verbatim>\<open>buildCameraCell({ cameraName, delay })\<close>: \<^verbatim>\<open>displayDelay\<close> is
  \<^verbatim>\<open>delay >= 0 ? `${delay} ms` : "(Error)"\<close> and the number input holds
  \<^verbatim>\<open>${delay >= 0 ? delay : 0}\<close>. The source evaluates the comparison twice; it has no
  effect, so its one result is used for both. The conversions can throw on an object.
\<close>

definition buildCameraCell :: "runtime \<Rightarrow> reading \<Rightarrow> js_error + string" where
  "buildCameraCell rt cam =
     (case ge_zero rt (delay cam) of
        Inl e \<Rightarrow> Inl e
      | Inr nonneg \<Rightarrow>
          (case (if nonneg
                 then (case ToString rt (delay cam) of Inl e \<Rightarrow> Inl e | Inr s \<Rightarrow> Inr (s @ '' ms''))
                 else Inr ''(Error)'') of
             Inl e \<Rightarrow> Inl e
           | Inr displayDelay \<Rightarrow>
               (case ToString rt (if nonneg then delay cam else JNum (Fin 0)) of
                  Inl e \<Rightarrow> Inl e
                | Inr val \<Rightarrow> Inr (camera_cell (cameraName cam) displayDelay val))))"

text \<open>
  \<^verbatim>\<open>cameraDelays[i]\<close> is \<^verbatim>\<open>undefined\<close> past the end of the array, and
  \<^verbatim>\<open>cam ? buildCameraCell(cam) : ""\<close> is then the empty string; a reading is an object
  and so is truthy.
\<close>

definition at_index :: "'a list \<Rightarrow> nat \<Rightarrow> 'a option" where
  "at_index xs i = (if i < length xs then Some (xs ! i) else None)"

fun column :: "runtime \<Rightarrow> reading option \<Rightarrow> js_error + string" where
  "column rt None = Inr ''''"
| "column rt (Some cam) = buildCameraCell rt cam"

text \<open>One pass of the loop appends this row to \<^verbatim>\<open>tableRows\<close>.\<close>

definition table_row :: "string \<Rightarrow> string \<Rightarrow> string" where
  \<open>table_row col1 col2 =
     ''\<newline>'' @
     ''        <tr>\<newline>'' @
     ''          <td>'' @
     col1 @
     ''</td>\<newline>'' @
     ''          <td>'' @
     col2 @
     ''</td>\<newline>'' @
     ''        </tr>\<newline>'' @
     ''      ''\<close>

text \<open>
  The loop \<^verbatim>\<open>for (let i = 0; i < cameraDelays.length; i += 2)\<close>, from index \<open>i\<close> with
  the rows built so far.
\<close>

function table_rows_from ::
  "runtime \<Rightarrow> reading list \<Rightarrow> nat \<Rightarrow> string \<Rightarrow> js_error + string" where
  "table_rows_from rt cameraDelays i tableRows =
     (if i < length cameraDelays then
        (case column rt (at_index cameraDelays i) of
           Inl e \<Rightarrow> Inl e
         | Inr col1 \<Rightarrow>
             (case column rt (at_index cameraDelays (i + 1)) of
                Inl e \<Rightarrow> Inl e
              | Inr col2 \<Rightarrow>
                  table_rows_from rt cameraDelays (i + 2) (tableRows @ table_row col1 col2)))
      else Inr tableRows)"
  by pat_completeness auto
termination
  by (relation "measure (\<lambda>(rt, cameraDelays, i, tableRows). length cameraDelays - i)") auto

declare table_rows_from.simps [simp del]

text \<open>The page around the rows.\<close>

definition html :: "string \<Rightarrow> string" where
  \<open>html tableRows =
     ''\<newline>'' @
     ''      <html>\<newline>'' @
     ''      <head>\<newline>'' @
     ''        <meta charset="utf-8">\<newline>'' @
     ''        <title>OBS Render Delay Control</title>\<newline>'' @
     ''        <style>\<newline>'' @
     ''          /* Make the table take up a good width, center it, reduce borders */\<newline>'' @
     ''          table {\<newline>'' @
     ''            width: 90%;\<newline>'' @
     ''            margin: 0 auto;\<newline>'' @
     ''            border-collapse: collapse;\<newline>'' @
     ''            font-family: sans-serif;\<newline>'' @
     ''            font-size: 14px; /* smaller text = less height */\<newline>'' @
     ''          }\<newline>'' @
     ''          td {\<newline>'' @
     ''            width: 50%;\<newline>'' @
     ''            vertical-align: top;\<newline>'' @
     ''            border: 1px solid #ccc;\<newline>'' @
     ''            padding: 8px; /* reduce padding to save vertical space */\<newline>'' @
     ''          }\<newline>'' @
     ''          /* Make headings smaller or remove them completely */\<newline>'' @
     ''          h3 {\<newline>'' @
     ''            margin: 0 0 4px 0;\<newline>'' @
     ''            font-size: 16px; /* slightly smaller heading */\<newline>'' @
     ''          }\<newline>'' @
     ''          /* Adjust form styles to reduce spacing */\<newline>'' @
     ''          form {\<newline>'' @
     ''            margin: 4px 0 0 0;\<newline>'' @
     ''          }\<newline>'' @
     ''          label {\<newline>'' @
     ''            font-size: 13px;\<newline>'' @
     ''          }\<newline>'' @
     ''          input[type="number"] {\<newline>'' @
     ''            width: 60px; /* narrower input */\<newline>'' @
     ''          }\<newline>'' @
     ''          button {\<newline>'' @
     ''            font-size: 12px; /* smaller button text */\<newline>'' @
     ''            padding: 2px 6px; /* less padding inside button */\<newline>'' @
     ''            margin-left: 4px;\<newline>'' @
     ''          }\<newline>'' @
     ''        </style>\<newline>'' @
     ''      </head>\<newline>'' @
     ''      <body>\<newline>'' @
     ''        <h1 style="text-align:center; font-size:20px; margin-bottom:16px;">\<newline>'' @
     ''          OBS Render Delay Control (2 Columns)\<newline>'' @
     ''        </h1>\<newline>'' @
     ''        <table>\<newline>'' @
     ''          <tbody>\<newline>'' @
     ''            '' @
     tableRows @
     ''\<newline>'' @
     ''          </tbody>\<newline>'' @
     ''        </table>\<newline>'' @
     ''      </body>\<newline>'' @
     ''      </html>\<newline>'' @
     ''    ''\<close>

text \<open>
  The handler of \<^verbatim>\<open>GET /\<close>. Anything thrown inside the \<^verbatim>\<open>try\<close> block is answered
  with status 500.
\<close>

definition get_root ::
  "runtime \<Rightarrow> obs_client \<Rightarrow> string list \<Rightarrow> schedule \<Rightarrow> response option \<times> obs_client" where
  "get_root rt obs sources order =
     (case fetchCameraDelays obs sources order of
        (None, obs') \<Rightarrow> (None, obs')
      | (Some fetched, obs') \<Rightarrow>
          (case (case fetched of
                   Inl e \<Rightarrow> Inl e
                 | Inr cameraDelays \<Rightarrow> table_rows_from rt cameraDelays 0 '''') of
             Inr tableRows \<Rightarrow> (Some \<lparr>status = 200, payload = Send (html tableRows)\<rparr>, obs')
           | Inl error \<Rightarrow> (Some \<lparr>status = 500, payload = Send ''Error generating page.''\<rparr>, obs')))"

subsection \<open>Writing a delay: \<^verbatim>\<open>setRenderDelay\<close> and the two \<^verbatim>\<open>POST\<close> routes\<close>

text \<open>
  \<^verbatim>\<open>setRenderDelay(cameraName, delayMs)\<close> makes the single call
  \<^verbatim>\<open>SetSourceFilterSettings\<close> and awaits it; it is the first call of its request.
\<close>

definition setRenderDelay ::
  "obs_client \<Rightarrow> schedule \<Rightarrow> jsval \<Rightarrow> jsnum \<Rightarrow> (js_error + unit) option \<times> obs_client" where
  "setRenderDelay obs order cam delayMs =
     (case obs_call obs ''SetSourceFilterSettings''
             (JObj [(''sourceName'', cam),
                    (''filterName'', JStr FILTER_NAME),
                    (''filterSettings'', JObj [(''delay_ms'', JNum delayMs)])]) of
        (outcome, obs') \<Rightarrow>
          (await (settled_calls obs 1 order) 0
             (case outcome of Inl e \<Rightarrow> Inl e | Inr ack \<Rightarrow> Inr ()),
           obs'))"

text \<open>
  The body of a request after \<^verbatim>\<open>express.json()\<close> and \<^verbatim>\<open>express.urlencoded()\<close>: an
  object, empty when nothing was parsed. Destructuring
  \<^verbatim>\<open>const { cameraName, delay } = req.body\<close> gives \<^verbatim>\<open>undefined\<close> for a missing field.
\<close>

type_synonym request_body = "(string \<times> jsval) list"

definition body_field :: "request_body \<Rightarrow> string \<Rightarrow> jsval" where
  "body_field body k = (case map_of body k of None \<Rightarrow> JUndefined | Some v \<Rightarrow> v)"

text \<open>
  The handler of \<^verbatim>\<open>POST /api/cameras\<close>. \<^verbatim>\<open>Number(delay)\<close> is evaluated inside the
  \<^verbatim>\<open>try\<close> block, before \<^verbatim>\<open>setRenderDelay\<close> is entered.
\<close>

definition post_api_cameras ::
  "runtime \<Rightarrow> obs_client \<Rightarrow> schedule \<Rightarrow> request_body \<Rightarrow> response option \<times> obs_client" where
  "post_api_cameras rt obs order body =
     (let cam = body_field body ''cameraName''; d = body_field body ''delay'' in
      if \<not> truthy cam \<or> d = JUndefined then
        (Some \<lparr>status = 400,
               payload = SendJson (JObj [(''error'', JStr ''Missing cameraName or delay.'')])\<rparr>,
         obs)
      else
        (case ToNumber rt d of
           Inl error \<Rightarrow>
             (Some \<lparr>status = 500,
                    payload = SendJson (JObj [(''error'', JStr ''Failed to set camera delay.'')])\<rparr>,
              obs)
         | Inr delayMs \<Rightarrow>
             (case setRenderDelay obs order cam delayMs of
                (None, obs') \<Rightarrow> (None, obs')
              | (Some (Inr ack), obs') \<Rightarrow>
                  (Some \<lparr>status = 200,
                         payload = SendJson (JObj [(''success'', JBool True),
                                                   (''cameraName'', cam),
                                                   (''delay'', d)])\<rparr>,
                   obs')
              | (Some (Inl error), obs') \<Rightarrow>
                  (Some \<lparr>status = 500,
                         payload = SendJson (JObj [(''error'', JStr ''Failed to set camera delay.'')])\<rparr>,
                   obs'))))"

text \<open>The handler of \<^verbatim>\<open>POST /update-delay\<close>; \<^verbatim>\<open>res.redirect("/")\<close> answers 302.\<close>

definition post_update_delay ::
  "runtime \<Rightarrow> obs_client \<Rightarrow> schedule \<Rightarrow> request_body \<Rightarrow> response option \<times> obs_client" where
  "post_update_delay rt obs order body =
     (let cam = body_field body ''cameraName''; newDelay = body_field body ''newDelay'' in
      if \<not> truthy cam \<or> newDelay = JUndefined then
        (Some \<lparr>status = 400, payload = Send ''Missing cameraName or newDelay.''\<rparr>, obs)
      else
        (case ToNumber rt newDelay of
           Inl error \<Rightarrow>
             (Some \<lparr>status = 500, payload = Send ''Failed to set camera delay.''\<rparr>, obs)
         | Inr delayMs \<Rightarrow>
             (case setRenderDelay obs order cam delayMs of
                (None, obs') \<Rightarrow> (None, obs')
              | (Some (Inr ack), obs') \<Rightarrow>
                  (Some \<lparr>status = 302, payload = Redirect ''/''\<rparr>, obs')
              | (Some (Inl error), obs') \<Rightarrow>
                  (Some \<lparr>status = 500, payload = Send ''Failed to set camera delay.''\<rparr>, obs'))))"

subsection \<open>The second variant of \<^verbatim>\<open>server.js\<close>\<close>

text \<open>
  The sources hold a second copy of the server. Its constants, functions and handlers
  are embedded here from that file, under the same names with the suffix \<open>_B\<close>. The
  runtime and the types above are shared.
\<close>


definition port_B :: nat where
  "port_B = 3000"

definition OBS_HOST_B :: string where
  "OBS_HOST_B = ''ws://strih.lan:4456''"

definition OBS_PASSWORD_B :: string where
  "OBS_PASSWORD_B = ''''"

definition FILTER_NAME_B :: string where
  "FILTER_NAME_B = ''Render Delay''"

definition cameraSources_B :: "string list" where
  "cameraSources_B =
     [''01 input'', ''02 input'', ''03 input'', ''04 input'',
      ''05 input'', ''06 input'', ''07 input'', ''08 input'']"

fun issue_reads_B ::
  "obs_client \<Rightarrow> string list \<Rightarrow> (js_error + jsval) list \<times> obs_client" where
  "issue_reads_B obs [] = ([], obs)"
| "issue_reads_B obs (cam # cams) =
     (case obs_call obs ''GetSourceFilter''
             (JObj [(''sourceName'', JStr cam), (''filterName'', JStr FILTER_NAME_B)]) of
        (resp, obs1) \<Rightarrow>
          (case issue_reads_B obs1 cams of (resps, obs2) \<Rightarrow> (resp # resps, obs2)))"

definition filter_delay_B :: "jsval \<Rightarrow> js_error + jsval" where
  "filter_delay_B resp =
     (case get_prop resp ''filterSettings'' of
        Inl e \<Rightarrow> Inl e
      | Inr filterSettings \<Rightarrow> get_prop filterSettings ''delay_ms'')"

definition read_delay_B :: "string \<Rightarrow> js_error + jsval \<Rightarrow> js_error + reading" where
  "read_delay_B cam outcome =
     (case (case outcome of Inl e \<Rightarrow> Inl e | Inr resp \<Rightarrow> filter_delay_B resp) of
        Inr d \<Rightarrow> Inr \<lparr>cameraName = cam, delay = d\<rparr>
      | Inl error \<Rightarrow> Inr \<lparr>cameraName = cam, delay = JNum (Fin (- 1))\<rparr>)"

definition fetchCameraDelays_B ::
  "obs_client \<Rightarrow> string list \<Rightarrow> schedule \<Rightarrow> (js_error + reading list) option \<times> obs_client" where
  "fetchCameraDelays_B obs sources order =
     (case issue_reads_B obs sources of
        (resps, obs') \<Rightarrow>
          (Promise_all (map2 read_delay_B sources resps)
             (settled_calls obs (length sources) order),
           obs'))"

definition get_api_cameras_B ::
  "obs_client \<Rightarrow> string list \<Rightarrow> schedule \<Rightarrow> response option \<times> obs_client" where
  "get_api_cameras_B obs sources order =
     (case fetchCameraDelays_B obs sources order of
        (None, obs') \<Rightarrow> (None, obs')
      | (Some (Inr cameraDelays), obs') \<Rightarrow>
          (Some \<lparr>status = 200, payload = SendJson (JArr (map reading_json cameraDelays))\<rparr>, obs')
      | (Some (Inl error), obs') \<Rightarrow>
          (Some \<lparr>status = 500,
                 payload = SendJson (JObj [(''error'', JStr ''Failed to fetch camera delays.'')])\<rparr>,
           obs'))"

definition camera_cell_B :: "string \<Rightarrow> string \<Rightarrow> string \<Rightarrow> string" where
  \<open>camera_cell_B cam displayDelay val =
     ''\<newline>'' @
     ''    <h3>'' @
     cam @
     ''</h3>\<newline>'' @
     ''    <p><strong>Current Delay:</strong> '' @
     displayDelay @
     ''</p>\<newline>'' @
     ''    <form action="/update-delay" method="POST">\<newline>'' @
     ''      <input type="hidden" name="cameraName" value="'' @
     cam @
     ''" />\<newline>'' @
     ''      <label>New Delay (ms): \<newline>'' @
     ''        <input type="number" name="newDelay" value="'' @
     val @
     ''" style="width:80px;" />\<newline>'' @
     ''      </label>\<newline>'' @
     ''      <button type="submit">Update</button>\<newline>'' @
     ''    </form>\<newline>'' @
     ''  ''\<close>

definition buildCameraCell_B :: "runtime \<Rightarrow> reading \<Rightarrow> js_error + string" where
  "buildCameraCell_B rt cam =
     (case ge_zero rt (delay cam) of
        Inl e \<Rightarrow> Inl e
      | Inr nonneg \<Rightarrow>
          (case (if nonneg
                 then (case ToString rt (delay cam) of Inl e \<Rightarrow> Inl e | Inr s \<Rightarrow> Inr (s @ '' ms''))
                 else Inr ''(Error)'') of
             Inl e \<Rightarrow> Inl e
           | Inr displayDelay \<Rightarrow>
               (case ToString rt (if nonneg then delay cam else JNum (Fin 0)) of
                  Inl e \<Rightarrow> Inl e
                | Inr val \<Rightarrow> Inr (camera_cell_B (cameraName cam) displayDelay val))))"

fun column_B :: "runtime \<Rightarrow> reading option \<Rightarrow> js_error + string" where
  "column_B rt None = Inr ''''"
| "column_B rt (Some cam) = buildCameraCell_B rt cam"

definition table_row_B :: "string \<Rightarrow> string \<Rightarrow> string" where
  \<open>table_row_B col1 col2 =
     ''\<newline>'' @
     ''        <tr>\<newline>'' @
     ''          <td>'' @
     col1 @
     ''</td>\<newline>'' @
     ''          <td>'' @
     col2 @
     ''</td>\<newline>'' @
     ''        </tr>\<newline>'' @
     ''      ''\<close>

function table_rows_from_B ::
  "runtime \<Rightarrow> reading list \<Rightarrow> nat \<Rightarrow> string \<Rightarrow> js_error + string" where
  "table_rows_from_B rt cameraDelays i tableRows =
     (if i < length cameraDelays then
        (case column_B rt (at_index cameraDelays i) of
           Inl e \<Rightarrow> Inl e
         | Inr col1 \<Rightarrow>
             (case column_B rt (at_index cameraDelays (i + 1)) of
                Inl e \<Rightarrow> Inl e
              | Inr col2 \<Rightarrow>
                  table_rows_from_B rt cameraDelays (i + 2) (tableRows @ table_row_B col1 col2)))
      else Inr tableRows)"
  by pat_completeness auto
termination
  by (relation "measure (\<lambda>(rt, cameraDelays, i, tableRows). length cameraDelays - i)") auto

declare table_rows_from_B.simps [simp del]

definition html_B :: "string \<Rightarrow> string" where
  \<open>html_B tableRows =
     ''\<newline>'' @
     ''      <html>\<newline>'' @
     ''      <head>\<newline>'' @
     ''        <meta charset="utf-8">\<newline>'' @
     ''        <title>OBS Render Delay Control</title>\<newline>'' @
     ''        <style>\<newline>'' @
     ''          /* Make the table fill most of the window width */\<newline>'' @
     ''          table {\<newline>'' @
     ''            width: 90%;\<newline>'' @
     ''            margin: 0 auto;       /* center the table */\<newline>'' @
     ''            border-collapse: collapse;\<newline>'' @
     ''          }\<newline>'' @
     ''          /* Force each of the 2 columns to take up 50% of the width */\<newline>'' @
     ''          td {\<newline>'' @
     ''            width: 50%;\<newline>'' @
     ''            vertical-align: top;  /* align content at the top */\<newline>'' @
     ''            padding: 16px;        /* spacing inside each cell */\<newline>'' @
     ''          }\<newline>'' @
     ''          /* You can tweak these further as you like */\<newline>'' @
     ''          h3 {\<newline>'' @
     ''            margin: 0 0 8px 0; \<newline>'' @
     ''          }\<newline>'' @
     ''        </style>\<newline>'' @
     ''      </head>\<newline>'' @
     ''      <body>\<newline>'' @
     ''        <h1>OBS Render Delay Control (2 Columns, 8 Cameras)</h1>\<newline>'' @
     ''        <table border="1">\<newline>'' @
     ''          <tbody>\<newline>'' @
     ''            '' @
     tableRows @
     ''\<newline>'' @
     ''          </tbody>\<newline>'' @
     ''        </table>\<newline>'' @
     ''      </body>\<newline>'' @
     ''      </html>\<newline>'' @
     ''    ''\<close>

definition get_root_B ::
  "runtime \<Rightarrow> obs_client \<Rightarrow> string list \<Rightarrow> schedule \<Rightarrow> response option \<times> obs_client" where
  "get_root_B rt obs sources order =
     (case fetchCameraDelays_B obs sources order of
        (None, obs') \<Rightarrow> (None, obs')
      | (Some fetched, obs') \<Rightarrow>
          (case (case fetched of
                   Inl e \<Rightarrow> Inl e
                 | Inr cameraDelays \<Rightarrow> table_rows_from_B rt cameraDelays 0 '''') of
             Inr tableRows \<Rightarrow> (Some \<lparr>status = 200, payload = Send (html_B tableRows)\<rparr>, obs')
           | Inl error \<Rightarrow> (Some \<lparr>status = 500, payload = Send ''Error generating page.''\<rparr>, obs')))"

definition setRenderDelay_B ::
  "obs_client \<Rightarrow> schedule \<Rightarrow> jsval \<Rightarrow> jsnum \<Rightarrow> (js_error + unit) option \<times> obs_client" where
  "setRenderDelay_B obs order cam delayMs =
     (case obs_call obs ''SetSourceFilterSettings''
             (JObj [(''sourceName'', cam),
                    (''filterName'', JStr FILTER_NAME_B),
                    (''filterSettings'', JObj [(''delay_ms'', JNum delayMs)])]) of
        (outcome, obs') \<Rightarrow>
          (await (settled_calls obs 1 order) 0
             (case outcome of Inl e \<Rightarrow> Inl e | Inr ack \<Rightarrow> Inr ()),
           obs'))"

definition post_api_cameras_B ::
  "runtime \<Rightarrow> obs_client \<Rightarrow> schedule \<Rightarrow> request_body \<Rightarrow> response option \<times> obs_client" where
  "post_api_cameras_B rt obs order body =
     (let cam = body_field body ''cameraName''; d = body_field body ''delay'' in
      if \<not> truthy cam \<or> d = JUndefined then
        (Some \<lparr>status = 400,
               payload = SendJson (JObj [(''error'', JStr ''Missing cameraName or delay.'')])\<rparr>,
         obs)
      else
        (case ToNumber rt d of
           Inl error \<Rightarrow>
             (Some \<lparr>status = 500,
                    payload = SendJson (JObj [(''error'', JStr ''Failed to set camera delay.'')])\<rparr>,
              obs)
         | Inr delayMs \<Rightarrow>
             (case setRenderDelay_B obs order cam delayMs of
                (None, obs') \<Rightarrow> (None, obs')
              | (Some (Inr ack), obs') \<Rightarrow>
                  (Some \<lparr>status = 200,
                         payload = SendJson (JObj [(''success'', JBool True),
                                                   (''cameraName'', cam),
                                                   (''delay'', d)])\<rparr>,
                   obs')
              | (Some (Inl error), obs') \<Rightarrow>
                  (Some \<lparr>status = 500,
                         payload = SendJson (JObj [(''error'', JStr ''Failed to set camera delay.'')])\<rparr>,
                   obs'))))"

definition post_update_delay_B ::
  "runtime \<Rightarrow> obs_client \<Rightarrow> schedule \<Rightarrow> request_body \<Rightarrow> response option \<times> obs_client" where
  "post_update_delay_B rt obs order body =
     (let cam = body_field body ''cameraName''; newDelay = body_field body ''newDelay'' in
      if \<not> truthy cam \<or> newDelay = JUndefined then
        (Some \<lparr>status = 400, payload = Send ''Missing cameraName or newDelay.''\<rparr>, obs)
      else
        (case ToNumber rt newDelay of
           Inl error \<Rightarrow>
             (Some \<lparr>status = 500, payload = Send ''Failed to set camera delay.''\<rparr>, obs)
         | Inr delayMs \<Rightarrow>
             (case setRenderDelay_B obs order cam delayMs of
                (None, obs') \<Rightarrow> (None, obs')
              | (Some (Inr ack), obs') \<Rightarrow>
                  (Some \<lparr>status = 302, payload = Redirect ''/''\<rparr>, obs')
              | (Some (Inl error), obs') \<Rightarrow>
                  (Some \<lparr>status = 500, payload = Send ''Failed to set camera delay.''\<rparr>, obs'))))"

subsection \<open>Notions used in the statements\<close>

text \<open>Every one of the \<open>n\<close> calls of a request settles.\<close>

definition all_settle :: "schedule \<Rightarrow> nat \<Rightarrow> bool" where
  "all_settle order n = list_all (\<lambda>i. i \<in> set order) [0..<n]"

text \<open>What the remote read of one source settles with.\<close>

definition read_outcome :: "obs_client \<Rightarrow> string \<Rightarrow> js_error + jsval" where
  "read_outcome obs cam =
     fst (obs_call obs ''GetSourceFilter''
            (JObj [(''sourceName'', JStr cam), (''filterName'', JStr ''Render Delay'')]))"

text \<open>The remote write of the delay \<open>n\<close> to the source \<open>cam\<close>, and what it settles with.\<close>

definition write_request :: "jsval \<Rightarrow> jsnum \<Rightarrow> string \<times> jsval" where
  "write_request cam n =
     (''SetSourceFilterSettings'',
      JObj [(''sourceName'', cam),
            (''filterName'', JStr ''Render Delay''),
            (''filterSettings'', JObj [(''delay_ms'', JNum n)])])"

definition write_outcome :: "obs_client \<Rightarrow> jsval \<Rightarrow> jsnum \<Rightarrow> js_error + jsval" where
  "write_outcome obs cam n =
     fst (obs_call obs (fst (write_request cam n)) (snd (write_request cam n)))"

text \<open>The reading with the error sentinel.\<close>

definition sentinel :: "string \<Rightarrow> reading" where
  "sentinel cam = \<lparr>cameraName = cam, delay = JNum (Fin (- 1))\<rparr>"

text \<open>
  The table seen by rows: row \<open>i\<close> holds the elements \<open>2 * i\<close> and \<open>2 * i + 1\<close> of the
  list, the second one missing in the last row of a list of odd length.
\<close>

definition paired :: "'a list \<Rightarrow> ('a option \<times> 'a option) list" where
  "paired xs = map (\<lambda>i. (at_index xs (2 * i), at_index xs (2 * i + 1))) [0..<(length xs + 1) div 2]"

text \<open>Rows rendered one after the other; the first cell that throws ends the rendering.\<close>

fun render_rows ::
  "runtime \<Rightarrow> (reading option \<times> reading option) list \<Rightarrow> js_error + string" where
  "render_rows rt [] = Inr ''''"
| "render_rows rt ((cam1, cam2) # rows) =
     (case column rt cam1 of
        Inl e \<Rightarrow> Inl e
      | Inr col1 \<Rightarrow>
          (case column rt cam2 of
             Inl e \<Rightarrow> Inl e
           | Inr col2 \<Rightarrow>
               (case render_rows rt rows of
                  Inl e \<Rightarrow> Inl e
                | Inr rest \<Rightarrow> Inr (table_row col1 col2 @ rest))))"

text \<open>
  The handler of \<^verbatim>\<open>GET /\<close> with the page around the rows left open: what the two
  variants of the list view have in common.
\<close>

definition list_view ::
  "(string \<Rightarrow> string) \<Rightarrow> runtime \<Rightarrow> obs_client \<Rightarrow> string list \<Rightarrow> schedule
     \<Rightarrow> response option \<times> obs_client" where
  "list_view page rt obs sources order =
     (case fetchCameraDelays obs sources order of
        (None, obs') \<Rightarrow> (None, obs')
      | (Some (Inl e), obs') \<Rightarrow>
          (Some \<lparr>status = 500, payload = Send ''Error generating page.''\<rparr>, obs')
      | (Some (Inr cameraDelays), obs') \<Rightarrow>
          (case render_rows rt (paired cameraDelays) of
             Inl e \<Rightarrow> (Some \<lparr>status = 500, payload = Send ''Error generating page.''\<rparr>, obs')
           | Inr rows \<Rightarrow> (Some \<lparr>status = 200, payload = Send (page rows)\<rparr>, obs')))"

subsection \<open>Example inputs\<close>

text \<open>
  Three sources, of which the second cannot be read; the others report 120 and 80
  milliseconds. Writes are acknowledged.
\<close>

definition three_sources :: "string list" where
  "three_sources = [''01 input'', ''02 input'', ''03 input'']"

definition example_device :: "string \<Rightarrow> jsval \<Rightarrow> js_error + jsval" where
  "example_device requestType requestData =
     (if requestType = ''GetSourceFilter'' then
        (if get_prop requestData ''sourceName'' = Inr (JStr ''01 input'')
         then Inr (JObj [(''filterSettings'', JObj [(''delay_ms'', JNum (Fin 120))])])
         else if get_prop requestData ''sourceName'' = Inr (JStr ''03 input'')
         then Inr (JObj [(''filterSettings'', JObj [(''delay_ms'', JNum (Fin 80))])])
         else Inl (JsError ''No source was found''))
      else Inr JUndefined)"

definition example_obs :: obs_client where
  "example_obs = \<lparr>connected = True, device = example_device, calls = []\<rparr>"

text \<open>
  The runtime at the inputs of the examples: \<^verbatim>\<open>StringToNumber\<close> at the strings
  \<^verbatim>\<open>"250"\<close> and \<^verbatim>\<open>"abc"\<close>, and \<^verbatim>\<open>Number::toString\<close> at \<open>10^21\<close>, which JavaScript
  prints as \<^verbatim>\<open>1e+21\<close>. No other string and no other large number is converted in them.
\<close>

definition example_rt :: runtime where
  "example_rt =
     \<lparr>StringToNumber = (\<lambda>s. if s = ''250'' then Fin 250 else NaN),
      LargeToString = (\<lambda>n. if n = 1000000000000000000000 then ''1e+21'' else '''')\<rparr>"

text \<open>Request bodies that name the empty source: a JSON body and a form body.\<close>

definition empty_name_json :: request_body where
  "empty_name_json = [(''cameraName'', JStr ''''), (''delay'', JNum (Fin 250))]"

definition empty_name_form :: request_body where
  "empty_name_form = [(''cameraName'', JStr ''''), (''newDelay'', JStr ''250'')]"

section \<open>Properties\<close>

subsection \<open>\<^verbatim>\<open>Promise.all\<close> and the reads\<close>

lemma those_map_Some: "those (map Some vs) = Some vs"
  by (induction vs) simp_all

lemma settle_all_fulfilled:
  "length slots = length vs \<Longrightarrow>
   (\<forall>i<length vs. slots ! i = Some (vs ! i) \<or> (slots ! i = None \<and> i \<in> set order)) \<Longrightarrow>
   settle_all (map Inr vs) slots order = Some (Inr vs)"
proof (induction order arbitrary: slots)
  case Nil
  then have "slots = map Some vs"
    by (intro nth_equalityI) auto
  then show ?case
    by (simp add: those_map_Some)
next
  case (Cons i order)
  show ?case
  proof (cases "i < length vs")
    case True
    have "settle_all (map Inr vs) (slots[i := Some (vs ! i)]) order = Some (Inr vs)"
    proof (rule Cons.IH)
      show "length (slots[i := Some (vs ! i)]) = length vs"
        using Cons.prems(1) by simp
      show "\<forall>j<length vs. slots[i := Some (vs ! i)] ! j = Some (vs ! j) \<or>
              (slots[i := Some (vs ! i)] ! j = None \<and> j \<in> set order)"
      proof (intro allI impI)
        fix j assume j: "j < length vs"
        show "slots[i := Some (vs ! i)] ! j = Some (vs ! j) \<or>
              (slots[i := Some (vs ! i)] ! j = None \<and> j \<in> set order)"
        proof (cases "j = i")
          case True
          with j Cons.prems(1) show ?thesis by simp
        next
          case False
          with j Cons.prems(2) show ?thesis by auto
        qed
      qed
    qed
    with True show ?thesis by simp
  next
    case False
    have "settle_all (map Inr vs) slots order = Some (Inr vs)"
    proof (rule Cons.IH)
      show "length slots = length vs" by (rule Cons.prems(1))
      show "\<forall>j<length vs. slots ! j = Some (vs ! j) \<or> (slots ! j = None \<and> j \<in> set order)"
        using Cons.prems(2) False by auto
    qed
    with False show ?thesis by simp
  qed
qed

lemma all_settle_iff: "all_settle order n \<longleftrightarrow> (\<forall>i<n. i \<in> set order)"
  by (auto simp: all_settle_def list_all_iff)

lemma Promise_all_fulfilled:
  "all_settle order (length vs) \<Longrightarrow> Promise_all (map Inr vs) order = Some (Inr vs)"
  unfolding Promise_all_def
  by (rule settle_all_fulfilled) (simp_all add: all_settle_iff)

lemma read_outcome_calls [simp]: "read_outcome (obs\<lparr>calls := c\<rparr>) cam = read_outcome obs cam"
  by (simp add: read_outcome_def obs_call_def)

lemma issue_reads_fst: "fst (issue_reads obs sources) = map (read_outcome obs) sources"
proof (induction sources arbitrary: obs)
  case Nil
  show ?case by simp
next
  case (Cons cam cams)
  have "fst (issue_reads (snd (obs_call obs ''GetSourceFilter''
          (JObj [(''sourceName'', JStr cam), (''filterName'', JStr FILTER_NAME)]))) cams)
        = map (read_outcome obs) cams"
    by (simp add: Cons.IH obs_call_def)
  then show ?case
    by (simp add: split_beta read_outcome_def FILTER_NAME_def)
qed

lemma read_delay_Inr: "read_delay cam outcome = Inr (projr (read_delay cam outcome))"
  by (simp add: read_delay_def split: sum.split)

lemma cameraName_read_delay [simp]: "cameraName (projr (read_delay cam outcome)) = cam"
  by (simp add: read_delay_def split: sum.split)

lemma delay_read_delay_rejected [simp]:
  "delay (projr (read_delay cam (Inl e))) = JNum (Fin (- 1))"
  by (simp add: read_delay_def)


lemma all_settle_settled_calls:
  "\<not> connected obs \<or> all_settle order n \<Longrightarrow> all_settle (settled_calls obs n order) n"
  by (auto simp: settled_calls_def all_settle_iff)

lemma fetch_complete:
  assumes "\<not> connected obs \<or> all_settle order (length sources)"
  shows "fst (fetchCameraDelays obs sources order) =
           Some (Inr (map (\<lambda>cam. projr (read_delay cam (read_outcome obs cam))) sources))"
proof -
  let ?rs = "map (\<lambda>cam. projr (read_delay cam (read_outcome obs cam))) sources"
  have "map2 read_delay sources (map (read_outcome obs) sources) = map Inr ?rs"
    by (induction sources) (simp_all add: read_delay_Inr [symmetric])
  moreover have "Promise_all (map Inr ?rs) (settled_calls obs (length sources) order) =
      Some (Inr ?rs)"
    using all_settle_settled_calls [OF assms]
    by (intro Promise_all_fulfilled) simp
  ultimately show ?thesis
    by (simp add: fetchCameraDelays_def split_beta issue_reads_fst)
qed

subsection \<open>The aggregation\<close>

text \<open>
  A read that never settles keeps \<^verbatim>\<open>fetchCameraDelays\<close> pending: the program has no
  timeout. This is why the statements below ask that the calls settle.
\<close>

lemma those_None: "None \<in> set slots \<Longrightarrow> those slots = None"
  by (induction slots) (auto split: option.split)

lemma settle_all_pending:
  "i < length vs \<Longrightarrow> length slots = length vs \<Longrightarrow> slots ! i = None \<Longrightarrow> i \<notin> set order \<Longrightarrow>
   settle_all (map Inr vs) slots order = None"
proof (induction order arbitrary: slots)
  case Nil
  then have "None \<in> set slots"
    by (metis nth_mem)
  then show ?case
    by (simp add: those_None)
next
  case (Cons j order)
  from Cons.prems have "j \<noteq> i" and rest: "i \<notin> set order"
    by auto
  then have "settle_all (map Inr vs) (slots[j := Some (vs ! j)]) order = None"
    using Cons.prems by (intro Cons.IH) simp_all
  moreover have "settle_all (map Inr vs) slots order = None"
    using Cons.prems rest by (intro Cons.IH) simp_all
  ultimately show ?case
    by simp
qed

lemma fetch_pending:
  assumes "connected obs" and "\<not> all_settle order (length sources)"
  shows "fst (fetchCameraDelays obs sources order) = None"
proof -
  let ?rs = "map (\<lambda>cam. projr (read_delay cam (read_outcome obs cam))) sources"
  from assms(2) obtain i where i: "i < length sources" "i \<notin> set order"
    by (auto simp: all_settle_iff)
  have "map2 read_delay sources (map (read_outcome obs) sources) = map Inr ?rs"
    by (induction sources) (simp_all add: read_delay_Inr [symmetric])
  moreover have "settle_all (map Inr ?rs) (replicate (length ?rs) None) order = None"
    using i by (intro settle_all_pending [of i]) simp_all
  ultimately show ?thesis
    using assms(1)
    by (simp add: fetchCameraDelays_def split_beta issue_reads_fst Promise_all_def
        settled_calls_def)
qed

text \<open>
  C1. For every list of sources, every connection and device, and every order in which
  the remote reads settle, \<^verbatim>\<open>fetchCameraDelays\<close> is fulfilled, whatever number of reads
  fail, with exactly one reading per source, in the order of the list.
\<close>

theorem fetch_all_in_order:
  "all_settle order (length sources) \<Longrightarrow>
   \<exists>cameraDelays. fst (fetchCameraDelays obs sources order) = Some (Inr cameraDelays)
     \<and> length cameraDelays = length sources
     \<and> map cameraName cameraDelays = sources"
proof -
  assume settled: "all_settle order (length sources)"
  let ?cds = "map (\<lambda>cam. projr (read_delay cam (read_outcome obs cam))) sources"
  from settled have "fst (fetchCameraDelays obs sources order) = Some (Inr ?cds)"
    by (simp add: fetch_complete)
  moreover have "length ?cds = length sources"
    by simp
  moreover have "map cameraName ?cds = sources"
    by (simp add: comp_def)
  ultimately show ?thesis
    by blast
qed

theorem fetch_all_in_order_witness:
  "all_settle [2, 0, 1] (length three_sources)
   \<and> (\<exists>cameraDelays.
        fst (fetchCameraDelays example_obs three_sources [2, 0, 1]) = Some (Inr cameraDelays)
        \<and> length cameraDelays = length three_sources
        \<and> map cameraName cameraDelays = three_sources)"
proof -
  have settled: "all_settle [2, 0, 1] (length three_sources)"
    by (simp add: all_settle_iff three_sources_def less_Suc_eq numeral_3_eq_3)
  from fetch_all_in_order [OF settled, of example_obs] settled show ?thesis
    by simp
qed



lemma example_read_outcomes:
  "read_outcome example_obs ''01 input'' =
     Inr (JObj [(''filterSettings'', JObj [(''delay_ms'', JNum (Fin 120))])])"
  "read_outcome example_obs ''02 input'' = Inl (JsError ''No source was found'')"
  "read_outcome example_obs ''03 input'' =
     Inr (JObj [(''filterSettings'', JObj [(''delay_ms'', JNum (Fin 80))])])"
  by (simp_all add: read_outcome_def obs_call_def example_obs_def example_device_def)



subsection \<open>After a failed connection\<close>

lemma read_outcome_disconnected:
  "\<not> connected obs \<Longrightarrow> read_outcome obs cam = Inl (JsError ''Not connected'')"
  by (simp add: read_outcome_def obs_call_def)

lemma get_api_cameras_fst:
  "fst (get_api_cameras obs sources order) =
     (case fst (fetchCameraDelays obs sources order) of
        None \<Rightarrow> None
      | Some (Inr cameraDelays) \<Rightarrow>
          Some \<lparr>status = 200, payload = SendJson (JArr (map reading_json cameraDelays))\<rparr>
      | Some (Inl error) \<Rightarrow>
          Some \<lparr>status = 500,
                payload = SendJson (JObj [(''error'', JStr ''Failed to fetch camera delays.'')])\<rparr>)"
  by (simp add: get_api_cameras_def split: prod.split option.split sum.split)

text \<open>
  C6. When the connection attempt at startup has failed, the server runs on the
  disconnected client, and \<^verbatim>\<open>GET /api/cameras\<close> answers 200, not 500, with one
  reading per source, each with the delay \<open>-1\<close>, for every list of sources and
  whatever the device and the schedule are.
\<close>

theorem disconnected_reads_answer_sentinels:
  "\<not> connected (startup (Inl err) dev)
   \<and> fst (get_api_cameras (startup (Inl err) dev) sources order) =
       Some \<lparr>status = 200,
             payload = SendJson (JArr (map (\<lambda>cam. JObj [(''cameraName'', JStr cam),
                                                         (''delay'', JNum (Fin (- 1)))]) sources))\<rparr>"
proof
  show down: "\<not> connected (startup (Inl err) dev)"
    by (simp add: startup_def)
  then have "fst (fetchCameraDelays (startup (Inl err) dev) sources order) =
      Some (Inr (map sentinel sources))"
    by (simp add: fetch_complete read_outcome_disconnected read_delay_def sentinel_def)
  then show "fst (get_api_cameras (startup (Inl err) dev) sources order) =
       Some \<lparr>status = 200,
             payload = SendJson (JArr (map (\<lambda>cam. JObj [(''cameraName'', JStr cam),
                                                         (''delay'', JNum (Fin (- 1)))]) sources))\<rparr>"
    by (simp add: get_api_cameras_fst reading_json_def sentinel_def comp_def)
qed

theorem disconnected_reads_answer_sentinels_witness:
  "fst (get_api_cameras (startup (Inl (JsError ''connect ECONNREFUSED'')) example_device)
          cameraSources []) =
     Some \<lparr>status = 200,
           payload = SendJson (JArr
             [JObj [(''cameraName'', JStr ''01 input''), (''delay'', JNum (Fin (- 1)))],
              JObj [(''cameraName'', JStr ''02 input''), (''delay'', JNum (Fin (- 1)))],
              JObj [(''cameraName'', JStr ''03 input''), (''delay'', JNum (Fin (- 1)))],
              JObj [(''cameraName'', JStr ''04 input''), (''delay'', JNum (Fin (- 1)))],
              JObj [(''cameraName'', JStr ''05 input''), (''delay'', JNum (Fin (- 1)))],
              JObj [(''cameraName'', JStr ''06 input''), (''delay'', JNum (Fin (- 1)))],
              JObj [(''cameraName'', JStr ''07 input''), (''delay'', JNum (Fin (- 1)))],
              JObj [(''cameraName'', JStr ''08 input''), (''delay'', JNum (Fin (- 1)))]])\<rparr>"
  using disconnected_reads_answer_sentinels
    [of "JsError ''connect ECONNREFUSED''" example_device cameraSources "[]"]
  by (simp add: cameraSources_def)

subsection \<open>The two \<^verbatim>\<open>POST\<close> routes\<close>

lemma all_settle_one: "all_settle order (Suc 0) \<longleftrightarrow> 0 \<in> set order"
  by (simp add: all_settle_iff)

lemma body_field_absent: "map_of body k = None \<Longrightarrow> body_field body k = JUndefined"
  by (simp add: body_field_def)

lemma setRenderDelay_eq:
  "setRenderDelay obs order cam n =
     (if connected obs \<longrightarrow> 0 \<in> set order
      then Some (case write_outcome obs cam n of Inl e \<Rightarrow> Inl e | Inr ack \<Rightarrow> Inr ())
      else None,
      obs\<lparr>calls := calls obs @ [write_request cam n]\<rparr>)"
  by (simp add: setRenderDelay_def obs_call_def await_def write_outcome_def write_request_def
      FILTER_NAME_def settled_calls_def)

lemma post_api_cameras_accepted:
  assumes "truthy (body_field body ''cameraName'')"
    and "body_field body ''delay'' \<noteq> JUndefined"
    and "ToNumber rt (body_field body ''delay'') = Inr n"
  shows "post_api_cameras rt obs order body =
     (if connected obs \<longrightarrow> 0 \<in> set order
      then Some (case write_outcome obs (body_field body ''cameraName'') n of
                   Inr ack \<Rightarrow>
                     \<lparr>status = 200,
                      payload = SendJson (JObj [(''success'', JBool True),
                                                (''cameraName'', body_field body ''cameraName''),
                                                (''delay'', body_field body ''delay'')])\<rparr>
                 | Inl error \<Rightarrow>
                     \<lparr>status = 500,
                      payload = SendJson (JObj [(''error'', JStr ''Failed to set camera delay.'')])\<rparr>)
      else None,
      obs\<lparr>calls := calls obs @ [write_request (body_field body ''cameraName'') n]\<rparr>)"
  using assms
  by (simp add: post_api_cameras_def Let_def setRenderDelay_eq split: sum.split)

lemma post_update_delay_accepted:
  assumes "truthy (body_field body ''cameraName'')"
    and "body_field body ''newDelay'' \<noteq> JUndefined"
    and "ToNumber rt (body_field body ''newDelay'') = Inr n"
  shows "post_update_delay rt obs order body =
     (if connected obs \<longrightarrow> 0 \<in> set order
      then Some (case write_outcome obs (body_field body ''cameraName'') n of
                   Inr ack \<Rightarrow> \<lparr>status = 302, payload = Redirect ''/''\<rparr>
                 | Inl error \<Rightarrow> \<lparr>status = 500, payload = Send ''Failed to set camera delay.''\<rparr>)
      else None,
      obs\<lparr>calls := calls obs @ [write_request (body_field body ''cameraName'') n]\<rparr>)"
  using assms
  by (simp add: post_update_delay_def Let_def setRenderDelay_eq split: sum.split)

lemma post_api_cameras_rejected:
  "\<not> truthy (body_field body ''cameraName'') \<or> body_field body ''delay'' = JUndefined \<Longrightarrow>
   post_api_cameras rt obs order body =
     (Some \<lparr>status = 400,
            payload = SendJson (JObj [(''error'', JStr ''Missing cameraName or delay.'')])\<rparr>,
      obs)"
  by (auto simp: post_api_cameras_def Let_def)

lemma post_update_delay_rejected:
  "\<not> truthy (body_field body ''cameraName'') \<or> body_field body ''newDelay'' = JUndefined \<Longrightarrow>
   post_update_delay rt obs order body =
     (Some \<lparr>status = 400, payload = Send ''Missing cameraName or newDelay.''\<rparr>, obs)"
  by (auto simp: post_update_delay_def Let_def)

text \<open>
  C3. A request to \<^verbatim>\<open>POST /api/cameras\<close> without the field \<^verbatim>\<open>cameraName\<close> or
  without the field \<^verbatim>\<open>delay\<close>, and a request to \<^verbatim>\<open>POST /update-delay\<close> without
  \<^verbatim>\<open>cameraName\<close> or without \<^verbatim>\<open>newDelay\<close>, is answered with status 400, and the
  connection is left as it was: no remote call is made.
\<close>

theorem missing_field_rejected:
  "(map_of body ''cameraName'' = None \<or> map_of body ''delay'' = None \<longrightarrow>
      post_api_cameras rt obs order body =
        (Some \<lparr>status = 400,
               payload = SendJson (JObj [(''error'', JStr ''Missing cameraName or delay.'')])\<rparr>,
         obs))
   \<and> (map_of body ''cameraName'' = None \<or> map_of body ''newDelay'' = None \<longrightarrow>
      post_update_delay rt obs order body =
        (Some \<lparr>status = 400, payload = Send ''Missing cameraName or newDelay.''\<rparr>, obs))"
proof (intro conjI impI)
  assume "map_of body ''cameraName'' = None \<or> map_of body ''delay'' = None"
  then have "\<not> truthy (body_field body ''cameraName'') \<or> body_field body ''delay'' = JUndefined"
    by (auto simp: body_field_absent)
  then show "post_api_cameras rt obs order body =
        (Some \<lparr>status = 400,
               payload = SendJson (JObj [(''error'', JStr ''Missing cameraName or delay.'')])\<rparr>,
         obs)"
    by (rule post_api_cameras_rejected)
next
  assume "map_of body ''cameraName'' = None \<or> map_of body ''newDelay'' = None"
  then have "\<not> truthy (body_field body ''cameraName'') \<or> body_field body ''newDelay'' = JUndefined"
    by (auto simp: body_field_absent)
  then show "post_update_delay rt obs order body =
        (Some \<lparr>status = 400, payload = Send ''Missing cameraName or newDelay.''\<rparr>, obs)"
    by (rule post_update_delay_rejected)
qed

theorem missing_field_rejected_witness:
  "(map_of ([] :: request_body) ''cameraName'' = None \<or> map_of ([] :: request_body) ''delay'' = None)
   \<and> post_api_cameras example_rt example_obs [0] [] =
        (Some \<lparr>status = 400,
               payload = SendJson (JObj [(''error'', JStr ''Missing cameraName or delay.'')])\<rparr>,
         example_obs)
   \<and> calls example_obs = []
   \<and> (map_of [(''cameraName'', JStr ''01 input'')] ''cameraName'' = None
        \<or> map_of [(''cameraName'', JStr ''01 input'')] ''newDelay'' = None)
   \<and> post_update_delay example_rt example_obs [0] [(''cameraName'', JStr ''01 input'')] =
        (Some \<lparr>status = 400, payload = Send ''Missing cameraName or newDelay.''\<rparr>, example_obs)"
  using missing_field_rejected [of "[]" example_rt example_obs "[0]"]
    missing_field_rejected [of "[(''cameraName'', JStr ''01 input'')]" example_rt example_obs "[0]"]
  by (simp add: example_obs_def)

text \<open>
  C4, as stated, fails: a request whose \<^verbatim>\<open>cameraName\<close> is the empty string has both
  fields present, and yet it is answered with status 400 and nothing is written.
\<close>

theorem empty_name_not_written_counterexample:
  "map_of empty_name_json ''cameraName'' = Some (JStr '''')
   \<and> map_of empty_name_json ''delay'' = Some (JNum (Fin 250))
   \<and> fst (post_api_cameras example_rt example_obs [0] empty_name_json) =
        Some \<lparr>status = 400,
              payload = SendJson (JObj [(''error'', JStr ''Missing cameraName or delay.'')])\<rparr>
   \<and> calls (snd (post_api_cameras example_rt example_obs [0] empty_name_json)) = []"
  by (simp add: empty_name_json_def post_api_cameras_def body_field_def example_obs_def)

text \<open>
  C4, amended. When \<^verbatim>\<open>cameraName\<close> is truthy, the delay field is not
  \<^verbatim>\<open>undefined\<close> and \<^verbatim>\<open>Number\<close> of it evaluates to \<open>n\<close> (for a numeric delay,
  \<open>n\<close> is that number), each of the two routes makes exactly one remote call, the write
  of \<open>n\<close> to that name. When the call settles with success, \<^verbatim>\<open>POST /api/cameras\<close>
  answers 200 and echoes the name and the delay of the request, and
  \<^verbatim>\<open>POST /update-delay\<close> redirects to \<^verbatim>\<open>/\<close>.
\<close>

theorem write_forwards_name_and_value:
  "(truthy (body_field body ''cameraName'')
      \<and> body_field body ''delay'' \<noteq> JUndefined
      \<and> ToNumber rt (body_field body ''delay'') = Inr n \<longrightarrow>
      calls (snd (post_api_cameras rt obs order body)) =
        calls obs @ [write_request (body_field body ''cameraName'') n]
      \<and> (all_settle order 1
           \<and> (\<exists>ack. write_outcome obs (body_field body ''cameraName'') n = Inr ack) \<longrightarrow>
           fst (post_api_cameras rt obs order body) =
             Some \<lparr>status = 200,
                   payload = SendJson (JObj [(''success'', JBool True),
                                             (''cameraName'', body_field body ''cameraName''),
                                             (''delay'', body_field body ''delay'')])\<rparr>))
   \<and> (truthy (body_field body ''cameraName'')
      \<and> body_field body ''newDelay'' \<noteq> JUndefined
      \<and> ToNumber rt (body_field body ''newDelay'') = Inr n \<longrightarrow>
      calls (snd (post_update_delay rt obs order body)) =
        calls obs @ [write_request (body_field body ''cameraName'') n]
      \<and> (all_settle order 1
           \<and> (\<exists>ack. write_outcome obs (body_field body ''cameraName'') n = Inr ack) \<longrightarrow>
           fst (post_update_delay rt obs order body) =
             Some \<lparr>status = 302, payload = Redirect ''/''\<rparr>))"
  by (auto simp: post_api_cameras_accepted post_update_delay_accepted all_settle_one)

theorem write_forwards_name_and_value_witness:
  "truthy (body_field [(''cameraName'', JStr ''03 input''), (''delay'', JNum (Fin (- 5000000)))] ''cameraName'')
   \<and> body_field [(''cameraName'', JStr ''03 input''), (''delay'', JNum (Fin (- 5000000)))] ''delay''
        \<noteq> JUndefined
   \<and> ToNumber example_rt
        (body_field [(''cameraName'', JStr ''03 input''), (''delay'', JNum (Fin (- 5000000)))] ''delay'')
        = Inr (Fin (- 5000000))
   \<and> all_settle [0] 1
   \<and> write_outcome example_obs (JStr ''03 input'') (Fin (- 5000000)) = Inr JUndefined
   \<and> calls (snd (post_api_cameras example_rt example_obs [0]
                [(''cameraName'', JStr ''03 input''), (''delay'', JNum (Fin (- 5000000)))])) =
        [(''SetSourceFilterSettings'',
          JObj [(''sourceName'', JStr ''03 input''),
                (''filterName'', JStr ''Render Delay''),
                (''filterSettings'', JObj [(''delay_ms'', JNum (Fin (- 5000000)))])])]
   \<and> fst (post_api_cameras example_rt example_obs [0]
            [(''cameraName'', JStr ''03 input''), (''delay'', JNum (Fin (- 5000000)))]) =
        Some \<lparr>status = 200,
              payload = SendJson (JObj [(''success'', JBool True),
                                        (''cameraName'', JStr ''03 input''),
                                        (''delay'', JNum (Fin (- 5000000)))])\<rparr>
   \<and> truthy (body_field [(''cameraName'', JStr ''01 input''), (''newDelay'', JStr ''250'')] ''cameraName'')
   \<and> body_field [(''cameraName'', JStr ''01 input''), (''newDelay'', JStr ''250'')] ''newDelay''
        \<noteq> JUndefined
   \<and> ToNumber example_rt
        (body_field [(''cameraName'', JStr ''01 input''), (''newDelay'', JStr ''250'')] ''newDelay'')
        = Inr (Fin 250)
   \<and> write_outcome example_obs (JStr ''01 input'') (Fin 250) = Inr JUndefined
   \<and> calls (snd (post_update_delay example_rt example_obs [0]
                [(''cameraName'', JStr ''01 input''), (''newDelay'', JStr ''250'')])) =
        [(''SetSourceFilterSettings'',
          JObj [(''sourceName'', JStr ''01 input''),
                (''filterName'', JStr ''Render Delay''),
                (''filterSettings'', JObj [(''delay_ms'', JNum (Fin 250))])])]
   \<and> fst (post_update_delay example_rt example_obs [0]
            [(''cameraName'', JStr ''01 input''), (''newDelay'', JStr ''250'')]) =
        Some \<lparr>status = 302, payload = Redirect ''/''\<rparr>"
proof -
  let ?json = "[(''cameraName'', JStr ''03 input''), (''delay'', JNum (Fin (- 5000000)))]"
  let ?form = "[(''cameraName'', JStr ''01 input''), (''newDelay'', JStr ''250'')]"
  have json: "truthy (body_field ?json ''cameraName'')
      \<and> body_field ?json ''delay'' \<noteq> JUndefined
      \<and> ToNumber example_rt (body_field ?json ''delay'') = Inr (Fin (- 5000000))"
    by (simp add: body_field_def)
  have form: "truthy (body_field ?form ''cameraName'')
      \<and> body_field ?form ''newDelay'' \<noteq> JUndefined
      \<and> ToNumber example_rt (body_field ?form ''newDelay'') = Inr (Fin 250)"
    by (simp add: body_field_def example_rt_def)
  have settled: "all_settle [0] 1"
    by (simp add: all_settle_def)
  have acked: "write_outcome example_obs (JStr ''03 input'') (Fin (- 5000000)) = Inr JUndefined"
    "write_outcome example_obs (JStr ''01 input'') (Fin 250) = Inr JUndefined"
    by (simp_all add: write_outcome_def write_request_def obs_call_def example_obs_def
        example_device_def)
  from write_forwards_name_and_value [of ?json example_rt "Fin (- 5000000)" example_obs "[0]"]
    json settled acked
  have "calls (snd (post_api_cameras example_rt example_obs [0] ?json)) =
          calls example_obs @ [write_request (body_field ?json ''cameraName'') (Fin (- 5000000))]
      \<and> fst (post_api_cameras example_rt example_obs [0] ?json) =
          Some \<lparr>status = 200,
                payload = SendJson (JObj [(''success'', JBool True),
                                          (''cameraName'', body_field ?json ''cameraName''),
                                          (''delay'', body_field ?json ''delay'')])\<rparr>"
    by (simp add: body_field_def)
  moreover
  from write_forwards_name_and_value [of ?form example_rt "Fin 250" example_obs "[0]"]
    form settled acked
  have "calls (snd (post_update_delay example_rt example_obs [0] ?form)) =
          calls example_obs @ [write_request (body_field ?form ''cameraName'') (Fin 250)]
      \<and> fst (post_update_delay example_rt example_obs [0] ?form) =
          Some \<lparr>status = 302, payload = Redirect ''/''\<rparr>"
    by (simp add: body_field_def)
  ultimately show ?thesis
    using json form settled acked
    by (simp add: body_field_def write_request_def example_obs_def)
qed

text \<open>
  C5, as stated, fails: a form whose \<^verbatim>\<open>cameraName\<close> is present and empty is rejected
  with status 400 before any remote call.
\<close>

theorem empty_name_rejected_counterexample:
  "map_of empty_name_form ''cameraName'' = Some (JStr '''')
   \<and> map_of empty_name_form ''newDelay'' = Some (JStr ''250'')
   \<and> post_update_delay example_rt example_obs [0] empty_name_form =
        (Some \<lparr>status = 400, payload = Send ''Missing cameraName or newDelay.''\<rparr>, example_obs)
   \<and> calls example_obs = []"
  by (simp add: empty_name_form_def post_update_delay_def body_field_def example_obs_def)

text \<open>
  C5, amended. Any non-empty name is forwarded as it is, whether or not it is one of the
  configured sources: no hypothesis relates \<open>name\<close> to \<^verbatim>\<open>cameraSources\<close>. The empty
  name is rejected with status 400 on both routes.
\<close>

theorem any_nonempty_name_forwarded:
  "(name \<noteq> '''' \<and> body_field body ''cameraName'' = JStr name
      \<and> body_field body ''delay'' \<noteq> JUndefined
      \<and> ToNumber rt (body_field body ''delay'') = Inr n \<longrightarrow>
      calls (snd (post_api_cameras rt obs order body)) = calls obs @ [write_request (JStr name) n])
   \<and> (name \<noteq> '''' \<and> body_field body ''cameraName'' = JStr name
      \<and> body_field body ''newDelay'' \<noteq> JUndefined
      \<and> ToNumber rt (body_field body ''newDelay'') = Inr n \<longrightarrow>
      calls (snd (post_update_delay rt obs order body)) = calls obs @ [write_request (JStr name) n])
   \<and> (body_field body ''cameraName'' = JStr '''' \<longrightarrow>
      post_api_cameras rt obs order body =
        (Some \<lparr>status = 400,
               payload = SendJson (JObj [(''error'', JStr ''Missing cameraName or delay.'')])\<rparr>,
         obs)
      \<and> post_update_delay rt obs order body =
        (Some \<lparr>status = 400, payload = Send ''Missing cameraName or newDelay.''\<rparr>, obs))"
  by (auto simp: post_api_cameras_accepted post_update_delay_accepted
      post_api_cameras_rejected post_update_delay_rejected)

theorem any_nonempty_name_forwarded_witness:
  "''99 input'' \<notin> set cameraSources
   \<and> calls (snd (post_api_cameras example_rt example_obs [0]
                [(''cameraName'', JStr ''99 input''), (''delay'', JNum (Fin 40))])) =
        [(''SetSourceFilterSettings'',
          JObj [(''sourceName'', JStr ''99 input''),
                (''filterName'', JStr ''Render Delay''),
                (''filterSettings'', JObj [(''delay_ms'', JNum (Fin 40))])])]
   \<and> calls (snd (post_update_delay example_rt example_obs [0]
                [(''cameraName'', JStr ''99 input''), (''newDelay'', JStr ''250'')])) =
        [(''SetSourceFilterSettings'',
          JObj [(''sourceName'', JStr ''99 input''),
                (''filterName'', JStr ''Render Delay''),
                (''filterSettings'', JObj [(''delay_ms'', JNum (Fin 250))])])]
   \<and> post_api_cameras example_rt example_obs [0] empty_name_json =
        (Some \<lparr>status = 400,
               payload = SendJson (JObj [(''error'', JStr ''Missing cameraName or delay.'')])\<rparr>,
         example_obs)
   \<and> post_update_delay example_rt example_obs [0] empty_name_form =
        (Some \<lparr>status = 400, payload = Send ''Missing cameraName or newDelay.''\<rparr>, example_obs)"
proof -
  let ?json = "[(''cameraName'', JStr ''99 input''), (''delay'', JNum (Fin 40))]"
  let ?form = "[(''cameraName'', JStr ''99 input''), (''newDelay'', JStr ''250'')]"
  have outside: "''99 input'' \<notin> set cameraSources"
    by (simp add: cameraSources_def)
  have json: "''99 input'' \<noteq> '''' \<and> body_field ?json ''cameraName'' = JStr ''99 input''
      \<and> body_field ?json ''delay'' \<noteq> JUndefined
      \<and> ToNumber example_rt (body_field ?json ''delay'') = Inr (Fin 40)"
    by (simp add: body_field_def)
  have form: "''99 input'' \<noteq> '''' \<and> body_field ?form ''cameraName'' = JStr ''99 input''
      \<and> body_field ?form ''newDelay'' \<noteq> JUndefined
      \<and> ToNumber example_rt (body_field ?form ''newDelay'') = Inr (Fin 250)"
    by (simp add: body_field_def example_rt_def)
  have empty: "body_field empty_name_json ''cameraName'' = JStr ''''"
    "body_field empty_name_form ''cameraName'' = JStr ''''"
    by (simp_all add: body_field_def empty_name_json_def empty_name_form_def)
  from any_nonempty_name_forwarded [of "''99 input''" ?json example_rt "Fin 40" example_obs "[0]"] json
  have "calls (snd (post_api_cameras example_rt example_obs [0] ?json)) =
          calls example_obs @ [write_request (JStr ''99 input'') (Fin 40)]"
    by blast
  moreover
  from any_nonempty_name_forwarded [of "''99 input''" ?form example_rt "Fin 250" example_obs "[0]"] form
  have "calls (snd (post_update_delay example_rt example_obs [0] ?form)) =
          calls example_obs @ [write_request (JStr ''99 input'') (Fin 250)]"
    by blast
  moreover
  from any_nonempty_name_forwarded [of _ empty_name_json example_rt _ example_obs "[0]"] empty
  have "post_api_cameras example_rt example_obs [0] empty_name_json =
        (Some \<lparr>status = 400,
               payload = SendJson (JObj [(''error'', JStr ''Missing cameraName or delay.'')])\<rparr>,
         example_obs)"
    by blast
  moreover
  from any_nonempty_name_forwarded [of _ empty_name_form example_rt _ example_obs "[0]"] empty
  have "post_update_delay example_rt example_obs [0] empty_name_form =
        (Some \<lparr>status = 400, payload = Send ''Missing cameraName or newDelay.''\<rparr>, example_obs)"
    by blast
  ultimately show ?thesis
    using outside by (simp add: write_request_def example_obs_def)
qed

text \<open>
  C10. The check of the delay field rejects \<^verbatim>\<open>undefined\<close> only. With a truthy
  \<^verbatim>\<open>cameraName\<close>, a delay that is \<^verbatim>\<open>null\<close>, a boolean or a string passes on both
  routes, and what is written is its conversion by \<^verbatim>\<open>Number\<close>: 0 for \<^verbatim>\<open>null\<close>,
  0 or 1 for a boolean, \<^verbatim>\<open>StringToNumber\<close> for a string, hence \<open>NaN\<close> for a string that
  is not numeric. The 200 answer of \<^verbatim>\<open>POST /api/cameras\<close> echoes the delay of the
  request, not the converted one.
\<close>

theorem delay_check_tests_only_undefined:
  "truthy (body_field body ''cameraName'') \<Longrightarrow>
   (body_field body ''delay'' = JNull \<longrightarrow>
      calls (snd (post_api_cameras rt obs order body)) =
        calls obs @ [write_request (body_field body ''cameraName'') (Fin 0)])
   \<and> (\<forall>b. body_field body ''delay'' = JBool b \<longrightarrow>
      calls (snd (post_api_cameras rt obs order body)) =
        calls obs @ [write_request (body_field body ''cameraName'') (Fin (if b then 1 else 0))])
   \<and> (\<forall>s. body_field body ''delay'' = JStr s \<longrightarrow>
      calls (snd (post_api_cameras rt obs order body)) =
        calls obs @ [write_request (body_field body ''cameraName'') (StringToNumber rt s)])
   \<and> (\<forall>s. body_field body ''delay'' = JStr s \<and> StringToNumber rt s = NaN \<longrightarrow>
      calls (snd (post_api_cameras rt obs order body)) =
        calls obs @ [write_request (body_field body ''cameraName'') NaN])
   \<and> ((body_field body ''delay'' = JNull \<or> (\<exists>b. body_field body ''delay'' = JBool b)
         \<or> (\<exists>s. body_field body ''delay'' = JStr s))
       \<and> all_settle order 1
       \<and> (\<exists>n ack. ToNumber rt (body_field body ''delay'') = Inr n
             \<and> write_outcome obs (body_field body ''cameraName'') n = Inr ack) \<longrightarrow>
      fst (post_api_cameras rt obs order body) =
        Some \<lparr>status = 200,
              payload = SendJson (JObj [(''success'', JBool True),
                                        (''cameraName'', body_field body ''cameraName''),
                                        (''delay'', body_field body ''delay'')])\<rparr>)
   \<and> (body_field body ''newDelay'' = JNull \<longrightarrow>
      calls (snd (post_update_delay rt obs order body)) =
        calls obs @ [write_request (body_field body ''cameraName'') (Fin 0)])
   \<and> (\<forall>b. body_field body ''newDelay'' = JBool b \<longrightarrow>
      calls (snd (post_update_delay rt obs order body)) =
        calls obs @ [write_request (body_field body ''cameraName'') (Fin (if b then 1 else 0))])
   \<and> (\<forall>s. body_field body ''newDelay'' = JStr s \<longrightarrow>
      calls (snd (post_update_delay rt obs order body)) =
        calls obs @ [write_request (body_field body ''cameraName'') (StringToNumber rt s)])
   \<and> (\<forall>s. body_field body ''newDelay'' = JStr s \<and> StringToNumber rt s = NaN \<longrightarrow>
      calls (snd (post_update_delay rt obs order body)) =
        calls obs @ [write_request (body_field body ''cameraName'') NaN])"
  by (auto simp: post_api_cameras_accepted post_update_delay_accepted all_settle_one)

theorem delay_check_tests_only_undefined_witness:
  "truthy (body_field [(''cameraName'', JStr ''01 input''), (''delay'', JNull)] ''cameraName'')
   \<and> calls (snd (post_api_cameras example_rt example_obs [0]
                [(''cameraName'', JStr ''01 input''), (''delay'', JNull)])) =
        [(''SetSourceFilterSettings'',
          JObj [(''sourceName'', JStr ''01 input''),
                (''filterName'', JStr ''Render Delay''),
                (''filterSettings'', JObj [(''delay_ms'', JNum (Fin 0))])])]
   \<and> fst (post_api_cameras example_rt example_obs [0]
            [(''cameraName'', JStr ''01 input''), (''delay'', JNull)]) =
        Some \<lparr>status = 200,
              payload = SendJson (JObj [(''success'', JBool True),
                                        (''cameraName'', JStr ''01 input''),
                                        (''delay'', JNull)])\<rparr>
   \<and> truthy (body_field [(''cameraName'', JStr ''01 input''), (''newDelay'', JStr ''abc'')] ''cameraName'')
   \<and> StringToNumber example_rt ''abc'' = NaN
   \<and> calls (snd (post_update_delay example_rt example_obs [0]
                [(''cameraName'', JStr ''01 input''), (''newDelay'', JStr ''abc'')])) =
        [(''SetSourceFilterSettings'',
          JObj [(''sourceName'', JStr ''01 input''),
                (''filterName'', JStr ''Render Delay''),
                (''filterSettings'', JObj [(''delay_ms'', JNum NaN)])])]"
proof -
  let ?json = "[(''cameraName'', JStr ''01 input''), (''delay'', JNull)]"
  let ?form = "[(''cameraName'', JStr ''01 input''), (''newDelay'', JStr ''abc'')]"
  have json: "truthy (body_field ?json ''cameraName'')"
    by (simp add: body_field_def)
  have form: "truthy (body_field ?form ''cameraName'')"
    by (simp add: body_field_def)
  have null: "body_field ?json ''delay'' = JNull"
    by (simp add: body_field_def)
  have abc: "body_field ?form ''newDelay'' = JStr ''abc''" "StringToNumber example_rt ''abc'' = NaN"
    by (simp_all add: body_field_def example_rt_def)
  have settled: "all_settle [0] 1"
    by (simp add: all_settle_def)
  have acked: "ToNumber example_rt (body_field ?json ''delay'') = Inr (Fin 0)
      \<and> write_outcome example_obs (body_field ?json ''cameraName'') (Fin 0) = Inr JUndefined"
    by (simp add: body_field_def write_outcome_def write_request_def obs_call_def example_obs_def
        example_device_def)
  from delay_check_tests_only_undefined [OF json, of example_rt example_obs "[0]"] null settled acked
  have "calls (snd (post_api_cameras example_rt example_obs [0] ?json)) =
          calls example_obs @ [write_request (body_field ?json ''cameraName'') (Fin 0)]
      \<and> fst (post_api_cameras example_rt example_obs [0] ?json) =
          Some \<lparr>status = 200,
                payload = SendJson (JObj [(''success'', JBool True),
                                          (''cameraName'', body_field ?json ''cameraName''),
                                          (''delay'', body_field ?json ''delay'')])\<rparr>"
    by blast
  moreover
  from delay_check_tests_only_undefined [OF form, of example_rt example_obs "[0]"] abc
  have "calls (snd (post_update_delay example_rt example_obs [0] ?form)) =
          calls example_obs @ [write_request (body_field ?form ''cameraName'') NaN]"
    by blast
  ultimately show ?thesis
    using json form abc
    by (simp add: body_field_def write_request_def example_obs_def)
qed

subsection \<open>The list view\<close>

lemma rows_upt_step:
  assumes "i < n"
  shows "[0..<(n - i + 1) div 2] = 0 # map Suc [0..<(n - (i + 2) + 1) div 2]"
proof -
  from assms have "(n - i + 1) div 2 = Suc ((n - (i + 2) + 1) div 2)"
    by (cases "n - i = 1") (simp, arith)
  then show ?thesis
    by (simp add: upt_conv_Cons map_Suc_upt del: upt_Suc)
qed

lemma table_rows_from_eq:
  "table_rows_from rt cameraDelays i tableRows =
     (case render_rows rt
             (map (\<lambda>k. (at_index cameraDelays (i + 2 * k), at_index cameraDelays (i + 2 * k + 1)))
                [0..<(length cameraDelays - i + 1) div 2]) of
        Inl e \<Rightarrow> Inl e
      | Inr rest \<Rightarrow> Inr (tableRows @ rest))"
proof (induction rt cameraDelays i tableRows rule: table_rows_from.induct)
  case (1 rt cameraDelays i tableRows)
  show ?case
  proof (cases "i < length cameraDelays")
    case False
    then have "(length cameraDelays - i + 1) div 2 = 0"
      by simp
    with False show ?thesis
      by (simp add: table_rows_from.simps [of rt cameraDelays i])
  next
    case True
    have rows: "render_rows rt
        (map (\<lambda>k. (at_index cameraDelays (i + 2 * k), at_index cameraDelays (i + 2 * k + 1)))
           [0..<(length cameraDelays - i + 1) div 2]) =
      (case column rt (at_index cameraDelays i) of
         Inl e \<Rightarrow> Inl e
       | Inr col1 \<Rightarrow>
           (case column rt (at_index cameraDelays (i + 1)) of
              Inl e \<Rightarrow> Inl e
            | Inr col2 \<Rightarrow>
                (case render_rows rt
                        (map (\<lambda>k. (at_index cameraDelays (i + 2 + 2 * k),
                                   at_index cameraDelays (i + 2 + 2 * k + 1)))
                           [0..<(length cameraDelays - (i + 2) + 1) div 2]) of
                   Inl e \<Rightarrow> Inl e
                 | Inr rest \<Rightarrow> Inr (table_row col1 col2 @ rest))))"
      by (subst rows_upt_step [OF True]) (simp add: comp_def split: sum.split)
    show ?thesis
    proof (cases "column rt (at_index cameraDelays i)")
      case (Inl e)
      with True show ?thesis
        unfolding rows by (subst table_rows_from.simps) simp
    next
      case col1: (Inr col1)
      show ?thesis
      proof (cases "column rt (at_index cameraDelays (i + 1))")
        case (Inl e)
        with True col1 show ?thesis
          unfolding rows by (subst table_rows_from.simps) simp
      next
        case col2: (Inr col2)
        have "table_rows_from rt cameraDelays i tableRows =
                table_rows_from rt cameraDelays (i + 2) (tableRows @ table_row col1 col2)"
          using True col1 col2 by (subst table_rows_from.simps) simp
        also note "1.IH" [OF True col1 col2]
        finally show ?thesis
          unfolding rows using col1 col2 by (simp split: sum.split)
      qed
    qed
  qed
qed

lemma buildCameraCell_number:
  "buildCameraCell rt \<lparr>cameraName = cam, delay = JNum n\<rparr> =
     Inr (camera_cell cam
            (if num_ge_zero n then NumberToString rt n @ '' ms'' else ''(Error)'')
            (if num_ge_zero n then NumberToString rt n else ''0''))"
  by (simp add: buildCameraCell_def ge_zero_def digits.simps [of 0])

lemma get_root_list_view: "get_root rt obs sources order = list_view html rt obs sources order"
  by (simp add: get_root_def list_view_def table_rows_from_eq paired_def
      split: prod.split option.split sum.split)

lemma example_obs_connected [simp]: "connected example_obs"
  by (simp add: example_obs_def)

lemma example_fetch:
  "fst (fetchCameraDelays example_obs three_sources [2, 0, 1]) =
     Some (Inr [\<lparr>cameraName = ''01 input'', delay = JNum (Fin 120)\<rparr>,
                \<lparr>cameraName = ''02 input'', delay = JNum (Fin (- 1))\<rparr>,
                \<lparr>cameraName = ''03 input'', delay = JNum (Fin 80)\<rparr>])"
proof -
  have "all_settle [2, 0, 1] (length three_sources)"
    by (simp add: all_settle_iff three_sources_def less_Suc_eq numeral_3_eq_3)
  then show ?thesis
    by (simp add: fetch_complete three_sources_def example_read_outcomes read_delay_def
        filter_delay_def)
qed

lemma paired_three: "paired [a, b, c] = [(Some a, Some b), (Some c, None)]"
  by (simp add: paired_def at_index_def upt_rec)

text \<open>
  The text of the rows, when the cell of every reading is known: \<open>cells ! j\<close> is what
  \<^verbatim>\<open>buildCameraCell\<close> returns for the reading \<open>j\<close>.
\<close>

lemma column_cell:
  assumes "\<forall>j<length cameraDelays. buildCameraCell rt (cameraDelays ! j) = Inr (cells ! j)"
  shows "column rt (at_index cameraDelays j) =
           Inr (if j < length cameraDelays then cells ! j else '''')"
  using assms by (simp add: at_index_def)

lemma render_rows_cells:
  assumes cells: "\<forall>j<length cameraDelays. buildCameraCell rt (cameraDelays ! j) = Inr (cells ! j)"
  shows "render_rows rt
           (map (\<lambda>i. (at_index cameraDelays (2 * i), at_index cameraDelays (2 * i + 1))) ks) =
         Inr (concat (map (\<lambda>i. table_row
                 (if 2 * i < length cameraDelays then cells ! (2 * i) else '''')
                 (if 2 * i + 1 < length cameraDelays then cells ! (2 * i + 1) else '''')) ks))"
proof (induction ks)
  case Nil
  show ?case by simp
next
  case (Cons k ks)
  then show ?case
    by (simp add: column_cell [OF cells])
qed

lemma rows_text:
  assumes cells: "\<forall>j<length cameraDelays. buildCameraCell rt (cameraDelays ! j) = Inr (cells ! j)"
  shows "table_rows_from rt cameraDelays 0 [] =
         Inr (concat (map (\<lambda>i. table_row
                 (cells ! (2 * i))
                 (if 2 * i + 1 < length cameraDelays then cells ! (2 * i + 1) else []))
               [0..<(length cameraDelays + 1) div 2]))"
proof -
  let ?ks = "[0..<(length cameraDelays + 1) div 2]"
  have same: "map (\<lambda>i. table_row
                 (if 2 * i < length cameraDelays then cells ! (2 * i) else [])
                 (if 2 * i + 1 < length cameraDelays then cells ! (2 * i + 1) else [])) ?ks =
        map (\<lambda>i. table_row
                 (cells ! (2 * i))
                 (if 2 * i + 1 < length cameraDelays then cells ! (2 * i + 1) else [])) ?ks"
    by (intro map_cong refl) auto
  have "table_rows_from rt cameraDelays 0 [] = render_rows rt (paired cameraDelays)"
    by (simp add: table_rows_from_eq paired_def split: sum.split)
  also have "\<dots> = Inr (concat (map (\<lambda>i. table_row
                 (if 2 * i < length cameraDelays then cells ! (2 * i) else [])
                 (if 2 * i + 1 < length cameraDelays then cells ! (2 * i + 1) else [])) ?ks))"
    unfolding paired_def by (rule render_rows_cells [OF cells])
  also note same
  finally show ?thesis .
qed

text \<open>The page holds the rows, unchanged, at one place.\<close>

lemma holds_rows_here: "\<exists>head tail. \<forall>rows. rows @ b = head @ rows @ tail"
proof (intro exI allI)
  show "rows @ b = [] @ rows @ b" for rows
    by simp
qed

lemma holds_rows_step:
  assumes "\<exists>head tail. \<forall>rows. f rows = head @ rows @ tail"
  shows "\<exists>head tail. \<forall>rows. a @ f rows = head @ rows @ tail"
proof -
  from assms obtain head tail where "\<And>rows. f rows = head @ rows @ tail"
    by blast
  then have "\<forall>rows. a @ f rows = (a @ head) @ rows @ tail"
    by simp
  then show ?thesis
    by blast
qed

lemma html_holds_rows: "\<exists>head tail. \<forall>rows. html rows = head @ rows @ tail"
  unfolding html_def by (intro holds_rows_step holds_rows_here)

lemma get_root_rows:
  assumes "fst (fetchCameraDelays obs sources order) = Some (Inr cameraDelays)"
    and "table_rows_from rt cameraDelays 0 '''' = Inr rows"
  shows "fst (get_root rt obs sources order) = Some \<lparr>status = 200, payload = Send (html rows)\<rparr>"
  using assms by (cases "fetchCameraDelays obs sources order") (simp add: get_root_def)

text \<open>
  C7. The loop of \<^verbatim>\<open>GET /\<close> writes one table row for every two readings, in their
  order. With \<open>cells ! j\<close> the cell that \<^verbatim>\<open>buildCameraCell\<close> returns for the reading
  \<open>j\<close>, the text of the rows is, for \<open>i = 0, 1, ...\<close>, a \<^verbatim>\<open><tr>\<close> whose first \<^verbatim>\<open><td>\<close>
  holds the cell \<open>2 * i\<close> and whose second \<^verbatim>\<open><td>\<close> holds the cell \<open>2 * i + 1\<close>. When the
  number of readings is odd, the text ends with a row whose first \<^verbatim>\<open><td>\<close> holds the
  cell of the last reading and whose second \<^verbatim>\<open><td>\<close> is empty. The page that
  \<^verbatim>\<open>GET /\<close> answers for the readings of \<^verbatim>\<open>fetchCameraDelays\<close> holds this text.
\<close>

theorem rows_pair_readings:
  "(\<forall>j<length cameraDelays. buildCameraCell rt (cameraDelays ! j) = Inr (cells ! j)) \<Longrightarrow>
   table_rows_from rt cameraDelays 0 '''' =
     Inr (concat (map (\<lambda>i.
            ''\<newline>'' @
            ''        <tr>\<newline>'' @
            ''          <td>'' @
            cells ! (2 * i) @
            ''</td>\<newline>'' @
            ''          <td>'' @
            (if 2 * i + 1 < length cameraDelays then cells ! (2 * i + 1) else '''') @
            ''</td>\<newline>'' @
            ''        </tr>\<newline>'' @
            ''      '')
          [0..<(length cameraDelays + 1) div 2]))
   \<and> (odd (length cameraDelays) \<longrightarrow>
        (\<exists>above. table_rows_from rt cameraDelays 0 '''' =
           Inr (above @
                ''\<newline>'' @
                ''        <tr>\<newline>'' @
                ''          <td>'' @
                cells ! (length cameraDelays - 1) @
                ''</td>\<newline>'' @
                ''          <td>'' @
                '''' @
                ''</td>\<newline>'' @
                ''        </tr>\<newline>'' @
                ''      '')))
   \<and> (fst (fetchCameraDelays obs sources order) = Some (Inr cameraDelays) \<longrightarrow>
        (\<exists>head rows tail.
           table_rows_from rt cameraDelays 0 '''' = Inr rows
           \<and> fst (get_root rt obs sources order) =
               Some \<lparr>status = 200, payload = Send (head @ rows @ tail)\<rparr>))"
proof -
  assume cells: "\<forall>j<length cameraDelays. buildCameraCell rt (cameraDelays ! j) = Inr (cells ! j)"
  let ?row = "\<lambda>i. table_row (cells ! (2 * i))
                 (if 2 * i + 1 < length cameraDelays then cells ! (2 * i + 1) else '''')"
  have rendered: "table_rows_from rt cameraDelays 0 '''' =
      Inr (concat (map ?row [0..<(length cameraDelays + 1) div 2]))"
    by (rule rows_text [OF cells])
  have last_row: "\<exists>above. table_rows_from rt cameraDelays 0 '''' =
      Inr (above @ table_row (cells ! (length cameraDelays - 1)) '''')"
    if "odd (length cameraDelays)"
  proof -
    from that obtain m where len: "length cameraDelays = 2 * m + 1"
      by (auto elim: oddE)
    then have "[0..<(length cameraDelays + 1) div 2] = [0..<m] @ [m]"
      by simp
    with rendered have "table_rows_from rt cameraDelays 0 '''' =
        Inr (concat (map ?row [0..<m]) @ ?row m)"
      by simp
    moreover have "?row m = table_row (cells ! (length cameraDelays - 1)) ''''"
      using len by simp
    ultimately show ?thesis
      by auto
  qed
  have page: "\<exists>head rows tail.
      table_rows_from rt cameraDelays 0 '''' = Inr rows
      \<and> fst (get_root rt obs sources order) =
          Some \<lparr>status = 200, payload = Send (head @ rows @ tail)\<rparr>"
    if fetched: "fst (fetchCameraDelays obs sources order) = Some (Inr cameraDelays)"
  proof -
    from html_holds_rows obtain head tail where "\<And>rows. html rows = head @ rows @ tail"
      by blast
    with get_root_rows [OF fetched rendered] rendered show ?thesis
      by auto
  qed
  from rendered last_row page show ?thesis
    unfolding table_row_def by blast
qed

theorem rows_pair_readings_witness:
  \<open>table_rows_from example_rt
      [\<lparr>cameraName = ''01 input'', delay = JNum (Fin 120)\<rparr>,
       \<lparr>cameraName = ''02 input'', delay = JNum (Fin (- 1))\<rparr>,
       \<lparr>cameraName = ''03 input'', delay = JNum (Fin 80)\<rparr>] 0 '''' =
     Inr (''\<newline>'' @
            ''        <tr>\<newline>'' @
            ''          <td>\<newline>'' @
            ''    <h3>01 input</h3>\<newline>'' @
            ''    <p><strong>Current Delay:</strong> 120 ms</p>\<newline>'' @
            ''    <form action="/update-delay" method="POST">\<newline>'' @
            ''      <input type="hidden" name="cameraName" value="01 input" />\<newline>'' @
            ''      <label>New Delay (ms): \<newline>'' @
            ''        <input type="number" name="newDelay" value="120" style="width:80px;" />\<newline>'' @
            ''      </label>\<newline>'' @
            ''      <button type="submit">Update</button>\<newline>'' @
            ''    </form>\<newline>'' @
            ''  </td>\<newline>'' @
            ''          <td>\<newline>'' @
            ''    <h3>02 input</h3>\<newline>'' @
            ''    <p><strong>Current Delay:</strong> (Error)</p>\<newline>'' @
            ''    <form action="/update-delay" method="POST">\<newline>'' @
            ''      <input type="hidden" name="cameraName" value="02 input" />\<newline>'' @
            ''      <label>New Delay (ms): \<newline>'' @
            ''        <input type="number" name="newDelay" value="0" style="width:80px;" />\<newline>'' @
            ''      </label>\<newline>'' @
            ''      <button type="submit">Update</button>\<newline>'' @
            ''    </form>\<newline>'' @
            ''  </td>\<newline>'' @
            ''        </tr>\<newline>'' @
            ''      \<newline>'' @
            ''        <tr>\<newline>'' @
            ''          <td>\<newline>'' @
            ''    <h3>03 input</h3>\<newline>'' @
            ''    <p><strong>Current Delay:</strong> 80 ms</p>\<newline>'' @
            ''    <form action="/update-delay" method="POST">\<newline>'' @
            ''      <input type="hidden" name="cameraName" value="03 input" />\<newline>'' @
            ''      <label>New Delay (ms): \<newline>'' @
            ''        <input type="number" name="newDelay" value="80" style="width:80px;" />\<newline>'' @
            ''      </label>\<newline>'' @
            ''      <button type="submit">Update</button>\<newline>'' @
            ''    </form>\<newline>'' @
            ''  </td>\<newline>'' @
            ''          <td></td>\<newline>'' @
            ''        </tr>\<newline>'' @
            ''      '')
   \<and> odd (length [\<lparr>cameraName = ''01 input'', delay = JNum (Fin 120)\<rparr>,
                   \<lparr>cameraName = ''02 input'', delay = JNum (Fin (- 1))\<rparr>,
                   \<lparr>cameraName = ''03 input'', delay = JNum (Fin 80)\<rparr>])
   \<and> fst (fetchCameraDelays example_obs three_sources [2, 0, 1]) =
       Some (Inr [\<lparr>cameraName = ''01 input'', delay = JNum (Fin 120)\<rparr>,
                  \<lparr>cameraName = ''02 input'', delay = JNum (Fin (- 1))\<rparr>,
                  \<lparr>cameraName = ''03 input'', delay = JNum (Fin 80)\<rparr>])
   \<and> (\<exists>head rows tail.
         table_rows_from example_rt
           [\<lparr>cameraName = ''01 input'', delay = JNum (Fin 120)\<rparr>,
            \<lparr>cameraName = ''02 input'', delay = JNum (Fin (- 1))\<rparr>,
            \<lparr>cameraName = ''03 input'', delay = JNum (Fin 80)\<rparr>] 0 '''' = Inr rows
         \<and> fst (get_root example_rt example_obs three_sources [2, 0, 1]) =
             Some \<lparr>status = 200, payload = Send (head @ rows @ tail)\<rparr>)\<close>
proof -
  let ?cds = "[\<lparr>cameraName = ''01 input'', delay = JNum (Fin 120)\<rparr>,
               \<lparr>cameraName = ''02 input'', delay = JNum (Fin (- 1))\<rparr>,
               \<lparr>cameraName = ''03 input'', delay = JNum (Fin 80)\<rparr>]"
  let ?cells = "[camera_cell ''01 input'' ''120 ms'' ''120'',
                 camera_cell ''02 input'' ''(Error)'' ''0'',
                 camera_cell ''03 input'' ''80 ms'' ''80'']"
  have cells: "\<forall>j<length ?cds. buildCameraCell example_rt (?cds ! j) = Inr (?cells ! j)"
  proof (intro allI impI)
    fix j :: nat
    assume "j < length ?cds"
    then consider "j = 0" | "j = 1" | "j = 2"
      by (auto simp: less_Suc_eq numeral_3_eq_3)
    then show "buildCameraCell example_rt (?cds ! j) = Inr (?cells ! j)"
      by cases (simp_all add: buildCameraCell_number digits.simps)
  qed
  have odd: "odd (length ?cds)"
    by simp
  note rows = rows_pair_readings [OF cells, of example_obs three_sources "[2, 0, 1]"]
  have rendered: \<open>table_rows_from example_rt ?cds 0 [] =
     Inr (''\<newline>'' @
            ''        <tr>\<newline>'' @
            ''          <td>\<newline>'' @
            ''    <h3>01 input</h3>\<newline>'' @
            ''    <p><strong>Current Delay:</strong> 120 ms</p>\<newline>'' @
            ''    <form action="/update-delay" method="POST">\<newline>'' @
            ''      <input type="hidden" name="cameraName" value="01 input" />\<newline>'' @
            ''      <label>New Delay (ms): \<newline>'' @
            ''        <input type="number" name="newDelay" value="120" style="width:80px;" />\<newline>'' @
            ''      </label>\<newline>'' @
            ''      <button type="submit">Update</button>\<newline>'' @
            ''    </form>\<newline>'' @
            ''  </td>\<newline>'' @
            ''          <td>\<newline>'' @
            ''    <h3>02 input</h3>\<newline>'' @
            ''    <p><strong>Current Delay:</strong> (Error)</p>\<newline>'' @
            ''    <form action="/update-delay" method="POST">\<newline>'' @
            ''      <input type="hidden" name="cameraName" value="02 input" />\<newline>'' @
            ''      <label>New Delay (ms): \<newline>'' @
            ''        <input type="number" name="newDelay" value="0" style="width:80px;" />\<newline>'' @
            ''      </label>\<newline>'' @
            ''      <button type="submit">Update</button>\<newline>'' @
            ''    </form>\<newline>'' @
            ''  </td>\<newline>'' @
            ''        </tr>\<newline>'' @
            ''      \<newline>'' @
            ''        <tr>\<newline>'' @
            ''          <td>\<newline>'' @
            ''    <h3>03 input</h3>\<newline>'' @
            ''    <p><strong>Current Delay:</strong> 80 ms</p>\<newline>'' @
            ''    <form action="/update-delay" method="POST">\<newline>'' @
            ''      <input type="hidden" name="cameraName" value="03 input" />\<newline>'' @
            ''      <label>New Delay (ms): \<newline>'' @
            ''        <input type="number" name="newDelay" value="80" style="width:80px;" />\<newline>'' @
            ''      </label>\<newline>'' @
            ''      <button type="submit">Update</button>\<newline>'' @
            ''    </form>\<newline>'' @
            ''  </td>\<newline>'' @
            ''          <td></td>\<newline>'' @
            ''        </tr>\<newline>'' @
            ''      '')\<close>
    using rows [THEN conjunct1] by (simp add: upt_rec camera_cell_def)
  have page: "\<exists>head rows tail.
         table_rows_from example_rt ?cds 0 [] = Inr rows
         \<and> fst (get_root example_rt example_obs three_sources [2, 0, 1]) =
             Some \<lparr>status = 200, payload = Send (head @ rows @ tail)\<rparr>"
    by (rule rows [THEN conjunct2, THEN conjunct2, THEN mp, OF example_fetch])
  show ?thesis
    by (intro conjI) (rule rendered, rule odd, rule example_fetch, rule page)
qed

text \<open>
  C8. For a reading whose delay is a number \<open>n \<ge> 0\<close>, the cell shows the string of \<open>n\<close>
  followed by \<^verbatim>\<open> ms\<close> after \<^verbatim>\<open>Current Delay:\<close>, and the number input of its form
  holds the string of \<open>n\<close>; below \<open>2^53\<close> this string is the decimal digits of \<open>n\<close>. For a
  reading with the delay \<open>-1\<close> the cell shows \<^verbatim>\<open>(Error)\<close> and the input holds 0.
\<close>

theorem cell_shows_delay_or_error:
  \<open>(0 \<le> n \<longrightarrow>
      buildCameraCell rt \<lparr>cameraName = cam, delay = JNum (Fin n)\<rparr> =
        Inr (''\<newline>'' @
             ''    <h3>'' @ cam @ ''</h3>\<newline>'' @
             ''    <p><strong>Current Delay:</strong> '' @ NumberToString rt (Fin n) @ '' ms</p>\<newline>'' @
             ''    <form action="/update-delay" method="POST">\<newline>'' @
             ''      <input type="hidden" name="cameraName" value="'' @ cam @ ''" />\<newline>'' @
             ''      <label>New Delay (ms): \<newline>'' @
             ''        <input type="number" name="newDelay" value="'' @ NumberToString rt (Fin n) @
                  ''" style="width:80px;" />\<newline>'' @
             ''      </label>\<newline>'' @
             ''      <button type="submit">Update</button>\<newline>'' @
             ''    </form>\<newline>'' @
             ''  '')
      \<and> (n < 9007199254740992 \<longrightarrow> NumberToString rt (Fin n) = digits (nat n)))
   \<and> buildCameraCell rt \<lparr>cameraName = cam, delay = JNum (Fin (- 1))\<rparr> =
        Inr (''\<newline>'' @
             ''    <h3>'' @ cam @ ''</h3>\<newline>'' @
             ''    <p><strong>Current Delay:</strong> (Error)</p>\<newline>'' @
             ''    <form action="/update-delay" method="POST">\<newline>'' @
             ''      <input type="hidden" name="cameraName" value="'' @ cam @ ''" />\<newline>'' @
             ''      <label>New Delay (ms): \<newline>'' @
             ''        <input type="number" name="newDelay" value="0" style="width:80px;" />\<newline>'' @
             ''      </label>\<newline>'' @
             ''      <button type="submit">Update</button>\<newline>'' @
             ''    </form>\<newline>'' @
             ''  '')\<close>
proof (intro conjI impI)
  assume "0 \<le> n"
  then have "num_ge_zero (Fin n)"
    by simp
  then have "buildCameraCell rt \<lparr>cameraName = cam, delay = JNum (Fin n)\<rparr> =
      Inr (camera_cell cam (NumberToString rt (Fin n) @ '' ms'') (NumberToString rt (Fin n)))"
    by (simp only: buildCameraCell_number if_True)
  then show \<open>buildCameraCell rt \<lparr>cameraName = cam, delay = JNum (Fin n)\<rparr> =
        Inr (''\<newline>'' @
             ''    <h3>'' @ cam @ ''</h3>\<newline>'' @
             ''    <p><strong>Current Delay:</strong> '' @ NumberToString rt (Fin n) @ '' ms</p>\<newline>'' @
             ''    <form action="/update-delay" method="POST">\<newline>'' @
             ''      <input type="hidden" name="cameraName" value="'' @ cam @ ''" />\<newline>'' @
             ''      <label>New Delay (ms): \<newline>'' @
             ''        <input type="number" name="newDelay" value="'' @ NumberToString rt (Fin n) @
                  ''" style="width:80px;" />\<newline>'' @
             ''      </label>\<newline>'' @
             ''      <button type="submit">Update</button>\<newline>'' @
             ''    </form>\<newline>'' @
             ''  '')\<close>
    by (simp add: camera_cell_def del: NumberToString.simps)
next
  assume "0 \<le> n" and "n < 9007199254740992"
  then show "NumberToString rt (Fin n) = digits (nat n)"
    by simp
next
  have "\<not> num_ge_zero (Fin (- 1))"
    by simp
  then have "buildCameraCell rt \<lparr>cameraName = cam, delay = JNum (Fin (- 1))\<rparr> =
      Inr (camera_cell cam ''(Error)'' ''0'')"
    by (simp only: buildCameraCell_number if_False)
  then show \<open>buildCameraCell rt \<lparr>cameraName = cam, delay = JNum (Fin (- 1))\<rparr> =
        Inr (''\<newline>'' @
             ''    <h3>'' @ cam @ ''</h3>\<newline>'' @
             ''    <p><strong>Current Delay:</strong> (Error)</p>\<newline>'' @
             ''    <form action="/update-delay" method="POST">\<newline>'' @
             ''      <input type="hidden" name="cameraName" value="'' @ cam @ ''" />\<newline>'' @
             ''      <label>New Delay (ms): \<newline>'' @
             ''        <input type="number" name="newDelay" value="0" style="width:80px;" />\<newline>'' @
             ''      </label>\<newline>'' @
             ''      <button type="submit">Update</button>\<newline>'' @
             ''    </form>\<newline>'' @
             ''  '')\<close>
    by (simp add: camera_cell_def)
qed

theorem cell_shows_delay_or_error_witness:
  \<open>(0::int) \<le> 120 \<and> (120::int) < 9007199254740992
   \<and> buildCameraCell example_rt \<lparr>cameraName = ''01 input'', delay = JNum (Fin 120)\<rparr> =
       Inr (''\<newline>'' @
            ''    <h3>01 input</h3>\<newline>'' @
            ''    <p><strong>Current Delay:</strong> 120 ms</p>\<newline>'' @
            ''    <form action="/update-delay" method="POST">\<newline>'' @
            ''      <input type="hidden" name="cameraName" value="01 input" />\<newline>'' @
            ''      <label>New Delay (ms): \<newline>'' @
            ''        <input type="number" name="newDelay" value="120" style="width:80px;" />\<newline>'' @
            ''      </label>\<newline>'' @
            ''      <button type="submit">Update</button>\<newline>'' @
            ''    </form>\<newline>'' @
            ''  '')
   \<and> buildCameraCell example_rt \<lparr>cameraName = ''02 input'', delay = JNum (Fin (- 1))\<rparr> =
       Inr (''\<newline>'' @
            ''    <h3>02 input</h3>\<newline>'' @
            ''    <p><strong>Current Delay:</strong> (Error)</p>\<newline>'' @
            ''    <form action="/update-delay" method="POST">\<newline>'' @
            ''      <input type="hidden" name="cameraName" value="02 input" />\<newline>'' @
            ''      <label>New Delay (ms): \<newline>'' @
            ''        <input type="number" name="newDelay" value="0" style="width:80px;" />\<newline>'' @
            ''      </label>\<newline>'' @
            ''      <button type="submit">Update</button>\<newline>'' @
            ''    </form>\<newline>'' @
            ''  '')
   \<and> (0::int) \<le> 1000000000000000000000
   \<and> buildCameraCell example_rt
        \<lparr>cameraName = ''04 input'', delay = JNum (Fin 1000000000000000000000)\<rparr> =
       Inr (''\<newline>'' @
            ''    <h3>04 input</h3>\<newline>'' @
            ''    <p><strong>Current Delay:</strong> 1e+21 ms</p>\<newline>'' @
            ''    <form action="/update-delay" method="POST">\<newline>'' @
            ''      <input type="hidden" name="cameraName" value="04 input" />\<newline>'' @
            ''      <label>New Delay (ms): \<newline>'' @
            ''        <input type="number" name="newDelay" value="1e+21" style="width:80px;" />\<newline>'' @
            ''      </label>\<newline>'' @
            ''      <button type="submit">Update</button>\<newline>'' @
            ''    </form>\<newline>'' @
            ''  '')\<close>
proof -
  have small: "(0::int) \<le> 120" "(120::int) < 9007199254740992"
    and large: "(0::int) \<le> 1000000000000000000000"
    by simp_all
  have "NumberToString example_rt (Fin 1000000000000000000000) = ''1e+21''"
    by (simp add: example_rt_def)
  with cell_shows_delay_or_error [of 120 example_rt "''01 input''"]
    cell_shows_delay_or_error [of 120 example_rt "''02 input''"]
    cell_shows_delay_or_error [of 1000000000000000000000 example_rt "''04 input''"]
    small large
  show ?thesis
    by (simp add: digits.simps del: NumberToString.simps)
qed

subsection \<open>The two variants\<close>

lemma issue_reads_B_eq: "issue_reads_B obs sources = issue_reads obs sources"
  by (induction sources arbitrary: obs) (simp_all add: FILTER_NAME_B_def FILTER_NAME_def)

lemma filter_delay_B_eq: "filter_delay_B = filter_delay"
  by (intro ext) (simp add: filter_delay_B_def filter_delay_def)

lemma read_delay_B_eq: "read_delay_B = read_delay"
  unfolding read_delay_B_def [abs_def] read_delay_def [abs_def] filter_delay_B_eq
  by (rule refl)

lemma fetchCameraDelays_B_eq: "fetchCameraDelays_B = fetchCameraDelays"
  by (intro ext)
    (simp add: fetchCameraDelays_B_def fetchCameraDelays_def issue_reads_B_eq read_delay_B_eq)

lemma camera_cell_B_eq: "camera_cell_B = camera_cell"
  by (intro ext) (simp add: camera_cell_B_def camera_cell_def)

lemma buildCameraCell_B_eq: "buildCameraCell_B = buildCameraCell"
  unfolding buildCameraCell_B_def [abs_def] buildCameraCell_def [abs_def] camera_cell_B_eq
  by (rule refl)

lemma column_B_eq: "column_B rt cam = column rt cam"
  by (cases cam) (simp_all add: buildCameraCell_B_eq)

lemma table_rows_from_B_eq:
  "table_rows_from_B rt cameraDelays i tableRows = table_rows_from rt cameraDelays i tableRows"
proof (induction rt cameraDelays i tableRows rule: table_rows_from.induct)
  case (1 rt cameraDelays i tableRows)
  show ?case
  proof (cases "i < length cameraDelays")
    case False
    then show ?thesis
      by (simp add: table_rows_from.simps [of rt cameraDelays i]
          table_rows_from_B.simps [of rt cameraDelays i])
  next
    case True
    show ?thesis
    proof (cases "column rt (at_index cameraDelays i)")
      case (Inl e)
      with True show ?thesis
        by (simp add: table_rows_from.simps [of rt cameraDelays i]
            table_rows_from_B.simps [of rt cameraDelays i] column_B_eq)
    next
      case col1: (Inr col1)
      show ?thesis
      proof (cases "column rt (at_index cameraDelays (i + 1))")
        case (Inl e)
        with True col1 show ?thesis
          by (simp add: table_rows_from.simps [of rt cameraDelays i]
              table_rows_from_B.simps [of rt cameraDelays i] column_B_eq)
      next
        case col2: (Inr col2)
        from "1.IH" [OF True col1 col2] True col1 col2 show ?thesis
          by (simp add: table_rows_from.simps [of rt cameraDelays i]
              table_rows_from_B.simps [of rt cameraDelays i] column_B_eq
              table_row_B_def table_row_def)
      qed
    qed
  qed
qed

lemma get_root_B_list_view:
  "get_root_B rt obs sources order = list_view html_B rt obs sources order"
  by (simp add: get_root_B_def list_view_def fetchCameraDelays_B_eq table_rows_from_B_eq
      table_rows_from_eq paired_def split: prod.split option.split sum.split)

lemma setRenderDelay_B_eq: "setRenderDelay_B = setRenderDelay"
  by (intro ext)
    (simp add: setRenderDelay_B_def setRenderDelay_def FILTER_NAME_B_def FILTER_NAME_def)

lemma list_view_status:
  "map_option status (fst (list_view page rt obs sources order)) =
     map_option status (fst (list_view page' rt obs sources order))"
  by (simp add: list_view_def split: prod.split option.split sum.split)

lemma list_view_snd:
  "snd (list_view page rt obs sources order) = snd (list_view page' rt obs sources order)"
  by (simp add: list_view_def split: prod.split option.split sum.split)

text \<open>
  C9. The two variants of \<^verbatim>\<open>server.js\<close> are the same program: their aggregation and
  mutation functions, \<^verbatim>\<open>buildCameraCell\<close>, the loop over the rows, their configuration
  and their handlers of \<^verbatim>\<open>GET /api/cameras\<close>, \<^verbatim>\<open>POST /api/cameras\<close> and
  \<^verbatim>\<open>POST /update-delay\<close> are equal as functions. Their handlers of \<^verbatim>\<open>GET /\<close> are the
  same list view, with the same status, the same rows and the same remote calls on every
  input, each with the page of its own file around the rows. The ports are 7700 and 3000.
\<close>

theorem variants_agree:
  "fetchCameraDelays_B = fetchCameraDelays
   \<and> setRenderDelay_B = setRenderDelay
   \<and> buildCameraCell_B = buildCameraCell
   \<and> table_rows_from_B = table_rows_from
   \<and> get_api_cameras_B = get_api_cameras
   \<and> post_api_cameras_B = post_api_cameras
   \<and> post_update_delay_B = post_update_delay
   \<and> get_root = list_view html
   \<and> get_root_B = list_view html_B
   \<and> (\<forall>rt obs sources order.
        map_option status (fst (get_root_B rt obs sources order)) =
          map_option status (fst (get_root rt obs sources order))
        \<and> snd (get_root_B rt obs sources order) = snd (get_root rt obs sources order))
   \<and> cameraSources_B = cameraSources
   \<and> FILTER_NAME_B = FILTER_NAME
   \<and> OBS_HOST_B = OBS_HOST
   \<and> OBS_PASSWORD_B = OBS_PASSWORD
   \<and> port = 7700 \<and> port_B = 3000"
proof (intro conjI allI)
  show "fetchCameraDelays_B = fetchCameraDelays"
    by (rule fetchCameraDelays_B_eq)
  show "setRenderDelay_B = setRenderDelay"
    by (rule setRenderDelay_B_eq)
  show "buildCameraCell_B = buildCameraCell"
    by (rule buildCameraCell_B_eq)
  show "table_rows_from_B = table_rows_from"
    by (intro ext) (rule table_rows_from_B_eq)
  show "get_api_cameras_B = get_api_cameras"
    by (intro ext) (simp add: get_api_cameras_B_def get_api_cameras_def fetchCameraDelays_B_eq)
  show "post_api_cameras_B = post_api_cameras"
    unfolding post_api_cameras_B_def [abs_def] post_api_cameras_def [abs_def] setRenderDelay_B_eq
    by (rule refl)
  show "post_update_delay_B = post_update_delay"
    unfolding post_update_delay_B_def [abs_def] post_update_delay_def [abs_def] setRenderDelay_B_eq
    by (rule refl)
  show "get_root = list_view html"
    by (intro ext) (rule get_root_list_view)
  show "get_root_B = list_view html_B"
    by (intro ext) (rule get_root_B_list_view)
  show "map_option status (fst (get_root_B rt obs sources order)) =
          map_option status (fst (get_root rt obs sources order))"
    for rt obs sources order
    unfolding get_root_list_view get_root_B_list_view by (rule list_view_status)
  show "snd (get_root_B rt obs sources order) = snd (get_root rt obs sources order)"
    for rt obs sources order
    unfolding get_root_list_view get_root_B_list_view by (rule list_view_snd)
  show "cameraSources_B = cameraSources"
    by (simp add: cameraSources_B_def cameraSources_def)
  show "FILTER_NAME_B = FILTER_NAME"
    by (simp add: FILTER_NAME_B_def FILTER_NAME_def)
  show "OBS_HOST_B = OBS_HOST"
    by (simp add: OBS_HOST_B_def OBS_HOST_def)
  show "OBS_PASSWORD_B = OBS_PASSWORD"
    by (simp add: OBS_PASSWORD_B_def OBS_PASSWORD_def)
  show "port = 7700"
    by (simp add: port_def)
  show "port_B = 3000"
    by (simp add: port_B_def)
qed

theorem variants_agree_witness:
  "fetchCameraDelays_B example_obs three_sources [2, 0, 1] =
     fetchCameraDelays example_obs three_sources [2, 0, 1]
   \<and> post_api_cameras_B example_rt example_obs [0] empty_name_json =
     post_api_cameras example_rt example_obs [0] empty_name_json
   \<and> fst (get_root example_rt example_obs three_sources [2, 0, 1]) =
       Some \<lparr>status = 200,
             payload = Send (html
               (table_row (camera_cell ''01 input'' ''120 ms'' ''120'')
                          (camera_cell ''02 input'' ''(Error)'' ''0'')
                @ table_row (camera_cell ''03 input'' ''80 ms'' ''80'') ''''))\<rparr>
   \<and> fst (get_root_B example_rt example_obs three_sources [2, 0, 1]) =
       Some \<lparr>status = 200,
             payload = Send (html_B
               (table_row (camera_cell ''01 input'' ''120 ms'' ''120'')
                          (camera_cell ''02 input'' ''(Error)'' ''0'')
                @ table_row (camera_cell ''03 input'' ''80 ms'' ''80'') ''''))\<rparr>"
proof -
  have rendered: "render_rows example_rt
       (paired [\<lparr>cameraName = ''01 input'', delay = JNum (Fin 120)\<rparr>,
                \<lparr>cameraName = ''02 input'', delay = JNum (Fin (- 1))\<rparr>,
                \<lparr>cameraName = ''03 input'', delay = JNum (Fin 80)\<rparr>]) =
       Inr (table_row (camera_cell ''01 input'' ''120 ms'' ''120'')
                      (camera_cell ''02 input'' ''(Error)'' ''0'')
            @ table_row (camera_cell ''03 input'' ''80 ms'' ''80'') '''')"
    by (simp add: paired_three buildCameraCell_number digits.simps)
  have view: "fst (list_view page example_rt example_obs three_sources [2, 0, 1]) =
       Some \<lparr>status = 200,
             payload = Send (page
               (table_row (camera_cell ''01 input'' ''120 ms'' ''120'')
                          (camera_cell ''02 input'' ''(Error)'' ''0'')
                @ table_row (camera_cell ''03 input'' ''80 ms'' ''80'') ''''))\<rparr>" for page
    using example_fetch rendered
    by (cases "fetchCameraDelays example_obs three_sources [2, 0, 1]") (simp add: list_view_def)
  from variants_agree have same:
    "fetchCameraDelays_B = fetchCameraDelays" "post_api_cameras_B = post_api_cameras"
    "get_root = list_view html" "get_root_B = list_view html_B"
    by blast+
  show ?thesis
    unfolding same using view [of html] view [of html_B] by simp
qed

text \<open>The pages themselves differ, already without rows.\<close>

lemma pages_differ: "html '''' \<noteq> html_B ''''"
  by (simp add: html_def html_B_def)

end
